theory Spec2Isabelle
  imports Complex_Main "HOL-Library.Monad_Syntax"
begin

section \<open>Conventions\<close>

text \<open>
  The development embeds the weather retrieval core of the repository: \<open>Location.to_query\<close>
  (models/models.py), \<open>MemoryCache\<close> (cache/memory_cache.py), \<open>WeatherService\<close>
  (services/weather_service.py) and \<open>WeatherClient\<close> (api/weather_client.py).

  Python \<open>float\<close> values are idealised as \<^typ>\<open>real\<close>: rounding, infinities and NaN are
  not represented. Python \<open>int\<close> is \<^typ>\<open>int\<close>, \<open>str\<close> is \<^typ>\<open>string\<close>, \<open>Optional[T]\<close> is
  \<^typ>\<open>'a option\<close> with \<open>None\<close> for Python's \<open>None\<close>. A raised exception is the \<open>Inl\<close> branch of
  a sum type.
\<close>

datatype error =
    ValueError string
  | KeyError string
  | TypeError
  | AttributeError
  | IndexError
  | JSONDecodeError
  | ValidationError
  | WeatherClientError string

section \<open>models/models.py: Location\<close>

record Location =
  city :: "string option"
  country :: "string option"
  state :: "string option"
  zip_code :: "string option"
  ip_address :: "string option"
  latitude :: "real option"
  longitude :: "real option"

text \<open>\<open>Location()\<close>: every field has the default \<open>None\<close>.\<close>

definition Location_default :: Location where
  "Location_default =
     \<lparr> city = None, country = None, state = None, zip_code = None, ip_address = None,
       latitude = None, longitude = None \<rparr>"

text \<open>
  \<open>if self.x:\<close> is Python's truth test. For an \<open>Optional[str]\<close> it holds when the field is
  a non-empty string, for an \<open>Optional[float]\<close> when it is a number other than zero. The two
  functions below give the field's value when the test holds, and \<open>None\<close> when it does not.
\<close>

definition truthy_str :: "string option \<Rightarrow> string option" where
  "truthy_str s = (case s of None \<Rightarrow> None | Some v \<Rightarrow> if v = [] then None else Some v)"

definition truthy_float :: "real option \<Rightarrow> real option" where
  "truthy_float x = (case x of None \<Rightarrow> None | Some v \<Rightarrow> if v = 0 then None else Some v)"

text \<open>
  \<open>Location.to_query\<close>. The parameter \<open>fmt\<close> is Python's conversion of a float to text inside
  an f-string; the raised \<open>ValueError\<close> is the \<open>Inl\<close> result.
\<close>

definition to_query :: "(real \<Rightarrow> string) \<Rightarrow> Location \<Rightarrow> error + string" where
  "to_query fmt self =
     (case (truthy_float (latitude self), truthy_float (longitude self)) of
        (Some la, Some lo) \<Rightarrow> Inr (fmt la @ '','' @ fmt lo)
      | _ \<Rightarrow>
     (case truthy_str (zip_code self) of
        Some z \<Rightarrow> Inr z
      | None \<Rightarrow>
     (case truthy_str (ip_address self) of
        Some i \<Rightarrow> Inr i
      | None \<Rightarrow>
     (case (truthy_str (city self), truthy_str (country self)) of
        (Some ci, Some co) \<Rightarrow> Inr (ci @ '','' @ co)
      | _ \<Rightarrow>
     (case (truthy_str (city self), truthy_str (state self)) of
        (Some ci, Some st) \<Rightarrow> Inr (ci @ '','' @ st)
      | _ \<Rightarrow>
     (case truthy_str (city self) of
        Some ci \<Rightarrow> Inr ci
      | None \<Rightarrow>
     (case truthy_str (state self) of
        Some st \<Rightarrow> Inr st
      | None \<Rightarrow>
     (case truthy_str (country self) of
        Some co \<Rightarrow> Inr co
      | None \<Rightarrow> Inl (ValueError ''Location must have at least one valid attribute.'')))))))))"

text \<open>
  The precedence list as the specification words it, with a field counting as present when
  it is given and, for a text field, not empty. Each rule yields its query when it applies;
  the first rule that applies wins.
\<close>

definition present :: "string option \<Rightarrow> bool" where
  "present s = (s \<noteq> None \<and> s \<noteq> Some [])"

definition precedence_rules :: "(real \<Rightarrow> string) \<Rightarrow> Location \<Rightarrow> string option list" where
  "precedence_rules fmt l =
     [ if latitude l \<noteq> None \<and> longitude l \<noteq> None
         then Some (fmt (the (latitude l)) @ '','' @ fmt (the (longitude l))) else None,
       if present (zip_code l) then zip_code l else None,
       if present (ip_address l) then ip_address l else None,
       if present (city l) \<and> present (country l)
         then Some (the (city l) @ '','' @ the (country l)) else None,
       if present (city l) \<and> present (state l)
         then Some (the (city l) @ '','' @ the (state l)) else None,
       if present (city l) then city l else None,
       if present (state l) then state l else None,
       if present (country l) then country l else None ]"

fun first_match :: "string option list \<Rightarrow> error + string" where
  "first_match [] = Inl (ValueError ''Location must have at least one valid attribute.'')"
| "first_match (Some q # rules) = Inr q"
| "first_match (None # rules) = first_match rules"

definition to_query_spec :: "(real \<Rightarrow> string) \<Rightarrow> Location \<Rightarrow> error + string" where
  "to_query_spec fmt l = first_match (precedence_rules fmt l)"

section \<open>cache/memory_cache.py: MemoryCache\<close>

text \<open>
  \<open>self.cache\<close> maps a key to an entry \<open>{"value": v, "expires_at": t}\<close>. The reading of
  \<open>time.time()\<close> that an operation makes is its argument \<open>now\<close>. Both operations return the
  dictionary as they leave it.
\<close>

record 'v entry =
  entry_value :: 'v
  expires_at :: real

type_synonym 'v MemoryCache = "string \<Rightarrow> 'v entry option"

definition MemoryCache_init :: "'v MemoryCache" where
  "MemoryCache_init = Map.empty"

definition MemoryCache_get :: "real \<Rightarrow> 'v MemoryCache \<Rightarrow> string \<Rightarrow> 'v option \<times> 'v MemoryCache" where
  "MemoryCache_get now cache key =
     (case cache key of
        None \<Rightarrow> (None, cache)
      | Some e \<Rightarrow>
          if expires_at e < now then (None, cache(key := None))
          else (Some (entry_value e), cache))"

definition MemoryCache_set ::
  "real \<Rightarrow> 'v MemoryCache \<Rightarrow> string \<Rightarrow> 'v \<Rightarrow> int \<Rightarrow> 'v MemoryCache" where
  "MemoryCache_set now cache key v ttl =
     cache(key \<mapsto> \<lparr> entry_value = v, expires_at = now + real_of_int ttl \<rparr>)"

section \<open>models/models.py: WeatherData\<close>

record WeatherData =
  country :: string
  state :: "string option"
  city :: string
  time_zone :: "string option"
  temp_c :: "real option"
  temp_f :: "real option"
  temp_k :: "real option"
  clouds :: int
  wind_speed_kph :: real
  wind_degree :: "int option"
  wind_dir :: "string option"
  pressure_mb :: "real option"
  pressure_in :: "real option"
  precip_mm :: "real option"
  precip_in :: "real option"
  humidity :: "int option"
  feelslike_c :: "real option"
  feelslike_f :: "real option"
  vis_km :: "real option"
  vis_miles :: "real option"
  uv :: "real option"
  gust_kph :: "real option"
  gust_mph :: "real option"
  last_updated :: "string option"

text \<open>\<open>MOCK_WEATHER_DATA\<close> of tests/test_service.py.\<close>

definition MOCK_WEATHER_DATA :: WeatherData where
  "MOCK_WEATHER_DATA =
     \<lparr> country = ''United Kingdom'', state = Some ''City of London, Greater London'',
       city = ''London'', time_zone = Some ''Europe/London'',
       temp_c = Some 15.5, temp_f = Some 59.9, temp_k = None,
       clouds = 75, wind_speed_kph = 12.5,
       wind_degree = None, wind_dir = None, pressure_mb = None, pressure_in = None,
       precip_mm = None, precip_in = None, humidity = None, feelslike_c = None,
       feelslike_f = None, vis_km = None, vis_miles = None, uv = None,
       gust_kph = None, gust_mph = None, last_updated = None \<rparr>"

section \<open>services/weather_service.py: the unit normaliser\<close>

definition c_to_k :: "real \<Rightarrow> real" where
  "c_to_k c = c + 273.15"

definition f_to_k :: "real \<Rightarrow> real" where
  "f_to_k f = (f - 32.0) * 5.0 / 9.0 + 273.15"

text \<open>
  \<open>base_k\<close> of \<open>_apply_units\<close>: \<open>None\<close> unless the mode is \<open>K\<close> or \<open>ALL\<close> and one of the two
  base temperatures is there; Celsius is tried first.
\<close>

definition base_k :: "WeatherData \<Rightarrow> string \<Rightarrow> real option" where
  "base_k wd units =
     (if (units = ''K'' \<or> units = ''ALL'') \<and> (temp_c wd \<noteq> None \<or> temp_f wd \<noteq> None)
      then (case temp_c wd of
              Some c \<Rightarrow> Some (c_to_k c)
            | None \<Rightarrow> (case temp_f wd of Some f \<Rightarrow> Some (f_to_k f) | None \<Rightarrow> None))
      else None)"

text \<open>
  \<open>WeatherData(temp_c=tc, temp_f=tf, temp_k=tk, **common_fields)\<close>: a new object whose 21
  non-temperature fields are read off \<open>wd\<close> one by one, as the \<open>common_fields\<close> dictionary does.
\<close>

definition with_common_fields ::
  "WeatherData \<Rightarrow> real option \<Rightarrow> real option \<Rightarrow> real option \<Rightarrow> WeatherData" where
  "with_common_fields wd tc tf tk =
     \<lparr> country = country wd, state = state wd, city = city wd, time_zone = time_zone wd,
       temp_c = tc, temp_f = tf, temp_k = tk,
       clouds = clouds wd, wind_speed_kph = wind_speed_kph wd,
       wind_degree = wind_degree wd, wind_dir = wind_dir wd,
       pressure_mb = pressure_mb wd, pressure_in = pressure_in wd,
       precip_mm = precip_mm wd, precip_in = precip_in wd,
       humidity = humidity wd,
       feelslike_c = feelslike_c wd, feelslike_f = feelslike_f wd,
       vis_km = vis_km wd, vis_miles = vis_miles wd,
       uv = uv wd, gust_kph = gust_kph wd, gust_mph = gust_mph wd,
       last_updated = last_updated wd \<rparr>"

definition apply_units :: "WeatherData \<Rightarrow> string \<Rightarrow> WeatherData" where
  "apply_units wd units =
     (if units = ''C'' then with_common_fields wd (temp_c wd) None None
      else if units = ''F'' then with_common_fields wd None (temp_f wd) None
      else if units = ''K'' then with_common_fields wd None None (base_k wd units)
      else if units = ''BOTH'' then with_common_fields wd (temp_c wd) (temp_f wd) None
      else if units = ''ALL'' then with_common_fields wd (temp_c wd) (temp_f wd) (base_k wd units)
      else wd)"

section \<open>services/weather_service.py: WeatherService\<close>

text \<open>
  \<open>str.upper\<close>, on ASCII text: the 26 lower-case letters are replaced, every other character
  is kept.
\<close>

definition upper_char :: "char \<Rightarrow> char" where
  "upper_char ch =
     (case map_of (zip ''abcdefghijklmnopqrstuvwxyz'' ''ABCDEFGHIJKLMNOPQRSTUVWXYZ'') ch of
        Some u \<Rightarrow> u
      | None \<Rightarrow> ch)"

definition upper :: "string \<Rightarrow> string" where
  "upper s = map upper_char s"

text \<open>
  The service calls its client through two methods and knows nothing else about it. A client
  is therefore given by what each method answers, as a function of the calls the client
  object has received before and of the argument; an exception it raises is an \<open>Inl\<close> answer.
  The field \<open>weather_client\<close> of the service is the client object's state: the calls it has
  received so far, oldest first.
\<close>

datatype client_call =
    Call_get_current_weather string
  | Call_get_current_weather_bulk "Location list"

record client =
  client_get_current_weather :: "client_call list \<Rightarrow> string \<Rightarrow> error + WeatherData"
  client_get_current_weather_bulk ::
    "client_call list \<Rightarrow> Location list \<Rightarrow> error + WeatherData option list"

text \<open>
  The \<open>Mock(spec=WeatherClient)\<close> of tests/test_service.py, whose \<open>get_current_weather\<close>
  returns \<open>MOCK_WEATHER_DATA\<close> on every call; its bulk method is given three results of
  which the middle one is missing.
\<close>

definition mock_client :: client where
  "mock_client =
     \<lparr> client_get_current_weather = (\<lambda>calls query. Inr MOCK_WEATHER_DATA),
       client_get_current_weather_bulk =
         (\<lambda>calls locations.
            Inr [Some MOCK_WEATHER_DATA, None, Some (MOCK_WEATHER_DATA\<lparr>city := ''Paris''\<rparr>)]) \<rparr>"

record WeatherService =
  weather_client :: "client_call list"
  cache :: "WeatherData MemoryCache option"
  cache_ttl :: int
  default_units :: string

definition WeatherService_init ::
  "WeatherData MemoryCache option \<Rightarrow> int \<Rightarrow> string \<Rightarrow> WeatherService" where
  "WeatherService_init cache0 ttl units =
     \<lparr> weather_client = [], cache = cache0, cache_ttl = ttl, default_units = upper units \<rparr>"

text \<open>\<open>(units or self.default_units).upper()\<close>\<close>

definition effective_units :: "WeatherService \<Rightarrow> string option \<Rightarrow> string" where
  "effective_units self units =
     upper (case truthy_str units of Some u \<Rightarrow> u | None \<Rightarrow> default_units self)"

text \<open>\<open>f"{query}|units={units}"\<close>\<close>

definition cache_key :: "string \<Rightarrow> string \<Rightarrow> string" where
  "cache_key query units = query @ ''|units='' @ units"

text \<open>
  \<open>WeatherService.get_current_weather\<close>. \<open>t_get\<close> and \<open>t_set\<close> are the readings of the clock
  made by \<open>cache.get\<close> and, after the client has answered, by \<open>cache.set\<close>. A \<open>MemoryCache\<close>
  object and a \<open>WeatherData\<close> object are always true in a truth test, so \<open>if self.cache\<close>
  asks whether a cache was given and \<open>if cached_data\<close> whether \<open>get\<close> returned a value.
  \<open>read_cache\<close> is the first \<open>if self.cache\<close> block, \<open>write_cache\<close> the second, and
  \<open>call_client\<close> the call \<open>self.weather_client.get_current_weather(query)\<close>.
\<close>

definition read_cache :: "real \<Rightarrow> WeatherService \<Rightarrow> string \<Rightarrow> WeatherData option \<times> WeatherService" where
  "read_cache now self key =
     (case cache self of
        None \<Rightarrow> (None, self)
      | Some c \<Rightarrow>
          (fst (MemoryCache_get now c key), self\<lparr>cache := Some (snd (MemoryCache_get now c key))\<rparr>))"

definition write_cache :: "real \<Rightarrow> WeatherService \<Rightarrow> string \<Rightarrow> WeatherData \<Rightarrow> WeatherService" where
  "write_cache now self key processed_data =
     (case cache self of
        None \<Rightarrow> self
      | Some c \<Rightarrow>
          self\<lparr>cache := Some (MemoryCache_set now c key processed_data (cache_ttl self))\<rparr>)"

definition call_client :: "client \<Rightarrow> WeatherService \<Rightarrow> string \<Rightarrow> (error + WeatherData) \<times> WeatherService" where
  "call_client cl self query =
     (client_get_current_weather cl (weather_client self) query,
      self\<lparr>weather_client := weather_client self @ [Call_get_current_weather query]\<rparr>)"

definition get_current_weather ::
  "(real \<Rightarrow> string) \<Rightarrow> client \<Rightarrow> real \<Rightarrow> real \<Rightarrow> WeatherService \<Rightarrow> Location \<Rightarrow> string option
     \<Rightarrow> (error + WeatherData) \<times> WeatherService" where
  "get_current_weather fmt cl t_get t_set self location units_arg =
     (let units = effective_units self units_arg in
      case to_query fmt location of
        Inl e \<Rightarrow> (Inl e, self)
      | Inr query \<Rightarrow>
          (let key = cache_key query units;
               (cached_data, self1) = read_cache t_get self key
           in case cached_data of
                Some hit \<Rightarrow> (Inr hit, self1)
              | None \<Rightarrow>
                  (let (answer, self2) = call_client cl self1 query
                   in case answer of
                        Inl e \<Rightarrow> (Inl e, self2)
                      | Inr data \<Rightarrow>
                          (let processed_data = apply_units data units
                           in (Inr processed_data, write_cache t_set self2 key processed_data)))))"

text \<open>
  The loop of \<open>get_current_weather_bulk\<close> over \<open>raw_results\<close>: every element that is not
  \<open>None\<close> is normalised and appended to \<open>processed\<close>.
\<close>

fun process_results :: "string \<Rightarrow> WeatherData option list \<Rightarrow> WeatherData list \<Rightarrow> WeatherData list" where
  "process_results units [] processed = processed"
| "process_results units (None # raw_results) processed =
     process_results units raw_results processed"
| "process_results units (Some wd # raw_results) processed =
     process_results units raw_results (processed @ [apply_units wd units])"

definition get_current_weather_bulk ::
  "client \<Rightarrow> WeatherService \<Rightarrow> Location list \<Rightarrow> string option
     \<Rightarrow> (error + WeatherData list) \<times> WeatherService" where
  "get_current_weather_bulk cl self locations units_arg =
     (if locations = [] then (Inr [], self)
      else
        let units = effective_units self units_arg;
            answer = client_get_current_weather_bulk cl (weather_client self) locations;
            self1 = self\<lparr>weather_client :=
                      weather_client self @ [Call_get_current_weather_bulk locations]\<rparr>
        in case answer of
             Inl e \<Rightarrow> (Inl e, self1)
           | Inr raw_results \<Rightarrow> (Inr (process_results units raw_results []), self1))"

section \<open>api/weather_client.py: WeatherClient\<close>

subsection \<open>Decoded JSON and the Python operations on it\<close>

text \<open>
  What \<open>response.json()\<close> returns: \<open>None\<close>, a bool, an int, a float, a str, a list or a dict
  with string keys. A dict is the list of its items (each key once); \<open>map_of\<close> looks a key up.
\<close>

datatype pyval =
    PNone
  | PBool bool
  | PInt int
  | PFloat real
  | PStr string
  | PList "pyval list"
  | PDict "(string \<times> pyval) list"

text \<open>\<open>d.get(key, dflt)\<close>: anything but a dict has no \<open>get\<close>.\<close>

definition dict_get :: "pyval \<Rightarrow> string \<Rightarrow> pyval \<Rightarrow> error + pyval" where
  "dict_get d key dflt =
     (case d of
        PDict items \<Rightarrow> Inr (case map_of items key of Some v \<Rightarrow> v | None \<Rightarrow> dflt)
      | _ \<Rightarrow> Inl AttributeError)"

text \<open>\<open>d[key]\<close> with a string key: \<open>KeyError\<close> on a dict without it, \<open>TypeError\<close> on anything else.\<close>

definition subscript :: "pyval \<Rightarrow> string \<Rightarrow> error + pyval" where
  "subscript d key =
     (case d of
        PDict items \<Rightarrow> (case map_of items key of Some v \<Rightarrow> Inr v | None \<Rightarrow> Inl (KeyError key))
      | _ \<Rightarrow> Inl TypeError)"

fun truthy :: "pyval \<Rightarrow> bool" where
  "truthy PNone = False"
| "truthy (PBool b) = b"
| "truthy (PInt n) = (n \<noteq> 0)"
| "truthy (PFloat x) = (x \<noteq> 0)"
| "truthy (PStr s) = (s \<noteq> [])"
| "truthy (PList xs) = (xs \<noteq> [])"
| "truthy (PDict items) = (items \<noteq> [])"

text \<open>\<open>x or None\<close>, after \<open>x\<close> has been computed.\<close>

definition or_None :: "error + pyval \<Rightarrow> error + pyval" where
  "or_None r = (case r of Inl e \<Rightarrow> Inl e | Inr v \<Rightarrow> Inr (if truthy v then v else PNone))"

text \<open>\<open>for item in xs\<close>: a list gives its elements, a dict its keys, a str its characters.\<close>

definition py_iter :: "pyval \<Rightarrow> error + pyval list" where
  "py_iter v =
     (case v of
        PList xs \<Rightarrow> Inr xs
      | PDict items \<Rightarrow> Inr (map (\<lambda>kv. PStr (fst kv)) items)
      | PStr s \<Rightarrow> Inr (map (\<lambda>ch. PStr [ch]) s)
      | _ \<Rightarrow> Inl TypeError)"

text \<open>\<open>str(n)\<close> for an integer: its decimal digits.\<close>

definition digit_char :: "nat \<Rightarrow> char" where
  "digit_char d =
     (if d = 0 then CHR ''0'' else if d = 1 then CHR ''1'' else if d = 2 then CHR ''2''
      else if d = 3 then CHR ''3'' else if d = 4 then CHR ''4'' else if d = 5 then CHR ''5''
      else if d = 6 then CHR ''6'' else if d = 7 then CHR ''7'' else if d = 8 then CHR ''8''
      else CHR ''9'')"

fun str_nat :: "nat \<Rightarrow> string" where
  "str_nat n = (if n < 10 then [digit_char n] else str_nat (n div 10) @ [digit_char (n mod 10)])"

declare str_nat.simps [simp del]

definition str_int :: "int \<Rightarrow> string" where
  "str_int i = (if i < 0 then CHR ''-'' # str_nat (nat (- i)) else str_nat (nat i))"

subsection \<open>Building the WeatherData object\<close>

text \<open>
  \<open>get_numeric(key)\<close>, the helper local to both client methods: the value under \<open>key\<close>, with
  \<open>None\<close> in place of a missing value, of \<open>None\<close> and of the empty string.
\<close>

definition get_numeric :: "pyval \<Rightarrow> string \<Rightarrow> error + pyval" where
  "get_numeric current_block key =
     (case dict_get current_block key PNone of
        Inl e \<Rightarrow> Inl e
      | Inr v \<Rightarrow> Inr (if v \<noteq> PNone \<and> v \<noteq> PStr [] then v else PNone))"

text \<open>
  Keyword arguments are evaluated left to right; the first one that raises ends the call.
\<close>

fun evaluate_kwargs :: "(string \<times> (error + pyval)) list \<Rightarrow> error + (string \<times> pyval) list" where
  "evaluate_kwargs [] = Inr []"
| "evaluate_kwargs ((name, Inl e) # rest) = Inl e"
| "evaluate_kwargs ((name, Inr v) # rest) =
     (case evaluate_kwargs rest of Inl e \<Rightarrow> Inl e | Inr kwargs \<Rightarrow> Inr ((name, v) # kwargs))"

text \<open>
  The keyword arguments of the call \<open>WeatherData(country=..., ..., last_updated=...)\<close>, which
  is written out twice in the source (once per client method) with the same text.
\<close>

definition keyword_arguments :: "pyval \<Rightarrow> pyval \<Rightarrow> (string \<times> (error + pyval)) list" where
  "keyword_arguments location_block current_block =
       [ (''country'', subscript location_block ''country''),
         (''state'', or_None (dict_get location_block ''region'' PNone)),
         (''city'', subscript location_block ''name''),
         (''time_zone'', or_None (dict_get location_block ''tz_id'' PNone)),
         (''temp_c'', dict_get current_block ''temp_c'' PNone),
         (''temp_f'', dict_get current_block ''temp_f'' PNone),
         (''temp_k'', Inr PNone),
         (''clouds'', dict_get current_block ''cloud'' (PInt 0)),
         (''wind_speed_kph'', dict_get current_block ''wind_kph'' (PFloat 0.0)),
         (''wind_degree'', get_numeric current_block ''wind_degree''),
         (''wind_dir'', dict_get current_block ''wind_dir'' PNone),
         (''pressure_mb'', get_numeric current_block ''pressure_mb''),
         (''pressure_in'', get_numeric current_block ''pressure_in''),
         (''precip_mm'', get_numeric current_block ''precip_mm''),
         (''precip_in'', get_numeric current_block ''precip_in''),
         (''humidity'', get_numeric current_block ''humidity''),
         (''feelslike_c'', get_numeric current_block ''feelslike_c''),
         (''feelslike_f'', get_numeric current_block ''feelslike_f''),
         (''vis_km'', get_numeric current_block ''vis_km''),
         (''vis_miles'', get_numeric current_block ''vis_miles''),
         (''uv'', get_numeric current_block ''uv''),
         (''gust_kph'', get_numeric current_block ''gust_kph''),
         (''gust_mph'', get_numeric current_block ''gust_mph''),
         (''last_updated'', dict_get current_block ''last_updated'' PNone) ]"

definition WeatherData_kwargs :: "pyval \<Rightarrow> pyval \<Rightarrow> error + (string \<times> pyval) list" where
  "WeatherData_kwargs location_block current_block =
     evaluate_kwargs (keyword_arguments location_block current_block)"

text \<open>
  The keys of \<open>current_block\<close> that the source reads through \<open>get_numeric\<close>; each is also the
  name of the field it fills.
\<close>

definition get_numeric_keys :: "string list" where
  "get_numeric_keys =
     [''wind_degree'', ''pressure_mb'', ''pressure_in'', ''precip_mm'', ''precip_in'',
      ''humidity'', ''feelslike_c'', ''feelslike_f'', ''vis_km'', ''vis_miles'', ''uv'',
      ''gust_kph'', ''gust_mph'']"

text \<open>
  The constructor of the pydantic model takes the keyword arguments and returns the object
  or raises \<open>ValidationError\<close>. Pydantic is not part of the repository, so the constructor
  is a parameter \<open>validate\<close> of the client functions.
\<close>

type_synonym validator = "(string \<times> pyval) list \<Rightarrow> error + WeatherData"

definition new_WeatherData :: "validator \<Rightarrow> pyval \<Rightarrow> pyval \<Rightarrow> error + WeatherData" where
  "new_WeatherData validate location_block current_block =
     (case WeatherData_kwargs location_block current_block of
        Inl e \<Rightarrow> Inl e
      | Inr kwargs \<Rightarrow> validate kwargs)"

subsection \<open>HTTP\<close>

text \<open>
  A request as \<open>requests.get\<close> or \<open>requests.post\<close> receives it: URL, query parameters, JSON
  body (POST only) and timeout. The network is a function \<open>http\<close> from the request to what
  comes back: a \<open>RequestException\<close> with its message, or a response with its status code,
  its text and the value of \<open>response.json()\<close> (\<open>None\<close> when the body is not JSON).
\<close>

datatype http_request =
    GET string "(string \<times> string) list" int
  | POST string "(string \<times> string) list" pyval int

datatype http_reply =
    RequestException string
  | Response int string "pyval option"

record WeatherClient =
  api_key :: string
  base_url :: string
  timeout :: int

subsection \<open>get_current_weather\<close>

text \<open>
  The part of \<open>WeatherClient.get_current_weather\<close> after \<open>raw = response.json()\<close>. The debug
  message is built from \<open>location_block.get('name', query)\<close> before the object is, so a
  \<open>location_block\<close> that is no dict raises there.
\<close>

definition parse_current :: "validator \<Rightarrow> string \<Rightarrow> pyval \<Rightarrow> error + WeatherData" where
  "parse_current validate query raw =
     (case subscript raw ''location'' of
        Inl e \<Rightarrow> Inl e
      | Inr location_block \<Rightarrow>
     (case subscript raw ''current'' of
        Inl e \<Rightarrow> Inl e
      | Inr current_block \<Rightarrow>
     (case dict_get location_block ''name'' (PStr query) of
        Inl e \<Rightarrow> Inl e
      | Inr logged_name \<Rightarrow> new_WeatherData validate location_block current_block)))"

definition current_request :: "WeatherClient \<Rightarrow> string \<Rightarrow> http_request" where
  "current_request self query =
     GET (base_url self @ ''/current.json'') [(''key'', api_key self), (''q'', query)] (timeout self)"

text \<open>The result comes with the list of requests that were sent.\<close>

definition WeatherClient_get_current_weather ::
  "validator \<Rightarrow> (http_request \<Rightarrow> http_reply) \<Rightarrow> WeatherClient \<Rightarrow> string
     \<Rightarrow> (error + WeatherData) \<times> http_request list" where
  "WeatherClient_get_current_weather validate http self query =
     (let request = current_request self query in
      (case http request of
         RequestException msg \<Rightarrow> Inl (WeatherClientError (''Network error: '' @ msg))
       | Response status_code body json \<Rightarrow>
           if status_code \<noteq> 200
           then Inl (WeatherClientError
                  (''WeatherAPI request failed: '' @ str_int status_code @ '' '' @ body))
           else (case json of
                   None \<Rightarrow> Inl JSONDecodeError
                 | Some raw \<Rightarrow> parse_current validate query raw),
       [request]))"

subsection \<open>get_current_weather_bulk\<close>

text \<open>
  The first loop, \<open>for idx, loc in enumerate(locations)\<close>: it appends
  \<open>{"q": q, "custom_id": str(idx)}\<close> to \<open>bulk_locations\<close> and records \<open>str(idx) \<mapsto> idx\<close> in
  \<open>id_to_index\<close>. A location that does not resolve raises out of the loop.
\<close>

fun tag_locations ::
  "(real \<Rightarrow> string) \<Rightarrow> Location list \<Rightarrow> nat \<Rightarrow> pyval list \<Rightarrow> (string \<Rightarrow> nat option)
     \<Rightarrow> error + pyval list \<times> (string \<Rightarrow> nat option)" where
  "tag_locations fmt [] idx bulk_locations id_to_index = Inr (bulk_locations, id_to_index)"
| "tag_locations fmt (loc # locations) idx bulk_locations id_to_index =
     (case to_query fmt loc of
        Inl e \<Rightarrow> Inl e
      | Inr q \<Rightarrow>
          tag_locations fmt locations (Suc idx)
            (bulk_locations @ [PDict [(''q'', PStr q), (''custom_id'', PStr (str_nat idx))]])
            (id_to_index(str_nat idx \<mapsto> idx)))"

text \<open>
  \<open>custom_id is None or custom_id not in id_to_index\<close>: \<open>Inr None\<close> when the item is to be
  skipped, \<open>Inr (Some idx)\<close> when it is matched. The keys of \<open>id_to_index\<close> are strings, so a
  number or a bool is not among them; a list or a dict cannot be hashed.
\<close>

definition lookup_custom_id :: "(string \<Rightarrow> nat option) \<Rightarrow> pyval \<Rightarrow> error + nat option" where
  "lookup_custom_id id_to_index custom_id =
     (case custom_id of
        PNone \<Rightarrow> Inr None
      | PStr s \<Rightarrow> Inr (id_to_index s)
      | PList xs \<Rightarrow> Inl TypeError
      | PDict items \<Rightarrow> Inl TypeError
      | _ \<Rightarrow> Inr None)"

text \<open>The second loop, \<open>for item in bulk_items\<close>, over the list \<open>results\<close>.\<close>

fun place_items ::
  "validator \<Rightarrow> (string \<Rightarrow> nat option) \<Rightarrow> pyval list \<Rightarrow> WeatherData option list
     \<Rightarrow> error + WeatherData option list" where
  "place_items validate id_to_index [] results = Inr results"
| "place_items validate id_to_index (item # bulk_items) results =
     (case dict_get item ''query'' (PDict []) of
        Inl e \<Rightarrow> Inl e
      | Inr query_block \<Rightarrow>
     (case dict_get query_block ''custom_id'' PNone of
        Inl e \<Rightarrow> Inl e
      | Inr custom_id \<Rightarrow>
     (case dict_get query_block ''location'' (PDict []) of
        Inl e \<Rightarrow> Inl e
      | Inr location_block \<Rightarrow>
     (case dict_get query_block ''current'' (PDict []) of
        Inl e \<Rightarrow> Inl e
      | Inr current_block \<Rightarrow>
     (case lookup_custom_id id_to_index custom_id of
        Inl e \<Rightarrow> Inl e
      | Inr None \<Rightarrow> place_items validate id_to_index bulk_items results
      | Inr (Some idx) \<Rightarrow>
     (case new_WeatherData validate location_block current_block of
        Inl e \<Rightarrow> Inl e
      | Inr wd \<Rightarrow>
          if idx < length results
          then place_items validate id_to_index bulk_items (results[idx := Some wd])
          else Inl IndexError))))))"

definition bulk_request :: "WeatherClient \<Rightarrow> pyval list \<Rightarrow> http_request" where
  "bulk_request self bulk_locations =
     POST (base_url self @ ''/current.json'') [(''key'', api_key self), (''q'', ''bulk'')]
       (PDict [(''locations'', PList bulk_locations)]) (timeout self)"

text \<open>From the reply to \<open>bulk_items\<close>, as the list the second loop runs over.\<close>

definition bulk_items_of :: "http_reply \<Rightarrow> error + pyval list" where
  "bulk_items_of reply =
     (case reply of
        RequestException msg \<Rightarrow> Inl (WeatherClientError (''Network error: '' @ msg))
      | Response status_code body json \<Rightarrow>
          if status_code \<noteq> 200
          then Inl (WeatherClientError
                 (''Failed bulk weather request: '' @ str_int status_code @ '' '' @ body))
          else (case json of
                  None \<Rightarrow> Inl JSONDecodeError
                | Some raw \<Rightarrow>
                    (case dict_get raw ''bulk'' (PList []) of
                       Inl e \<Rightarrow> Inl e
                     | Inr bulk_items \<Rightarrow> py_iter bulk_items)))"

definition WeatherClient_get_current_weather_bulk ::
  "(real \<Rightarrow> string) \<Rightarrow> validator \<Rightarrow> (http_request \<Rightarrow> http_reply) \<Rightarrow> WeatherClient \<Rightarrow> Location list
     \<Rightarrow> (error + WeatherData option list) \<times> http_request list" where
  "WeatherClient_get_current_weather_bulk fmt validate http self locations =
     (if locations = [] then (Inr [], [])
      else
        (case tag_locations fmt locations 0 [] Map.empty of
           Inl e \<Rightarrow> (Inl e, [])
         | Inr (bulk_locations, id_to_index) \<Rightarrow>
             (let request = bulk_request self bulk_locations in
              (case bulk_items_of (http request) of
                 Inl e \<Rightarrow> Inl e
               | Inr bulk_items \<Rightarrow>
                   place_items validate id_to_index bulk_items
                     (replicate (length locations) None),
               [request]))))"

subsection \<open>What the bulk method is specified to do\<close>

text \<open>
  The request body the specification asks for: the queries in order, the one at position
  \<open>idx\<close> tagged with \<open>str(idx)\<close>.
\<close>

definition tagged :: "nat \<Rightarrow> string list \<Rightarrow> pyval list" where
  "tagged start qs =
     map (\<lambda>(idx, q). PDict [(''q'', PStr q), (''custom_id'', PStr (str_nat idx))])
       (enumerate start qs)"

text \<open>
  The correlation id an item of the response carries (\<open>None\<close> when it has none), the object
  built from its location and current blocks, and the items of a response that answer
  position \<open>idx\<close>.
\<close>

definition item_custom_id :: "pyval \<Rightarrow> pyval" where
  "item_custom_id item =
     (case dict_get item ''query'' (PDict []) of
        Inl e \<Rightarrow> PNone
      | Inr query_block \<Rightarrow>
          (case dict_get query_block ''custom_id'' PNone of
             Inl e \<Rightarrow> PNone
           | Inr custom_id \<Rightarrow> custom_id))"

definition item_WeatherData :: "validator \<Rightarrow> pyval \<Rightarrow> error + WeatherData" where
  "item_WeatherData validate item =
     (case dict_get item ''query'' (PDict []) of
        Inl e \<Rightarrow> Inl e
      | Inr query_block \<Rightarrow>
     (case dict_get query_block ''location'' (PDict []) of
        Inl e \<Rightarrow> Inl e
      | Inr location_block \<Rightarrow>
     (case dict_get query_block ''current'' (PDict []) of
        Inl e \<Rightarrow> Inl e
      | Inr current_block \<Rightarrow> new_WeatherData validate location_block current_block)))"

definition answers_for :: "nat \<Rightarrow> pyval list \<Rightarrow> pyval list" where
  "answers_for idx bulk_items =
     filter (\<lambda>item. item_custom_id item = PStr (str_nat idx)) bulk_items"

text \<open>Reading a decimal numeral back, the inverse of \<open>str_nat\<close>.\<close>

definition digit_val :: "char \<Rightarrow> nat" where
  "digit_val ch =
     (if ch = CHR ''0'' then 0 else if ch = CHR ''1'' then 1 else if ch = CHR ''2'' then 2
      else if ch = CHR ''3'' then 3 else if ch = CHR ''4'' then 4 else if ch = CHR ''5'' then 5
      else if ch = CHR ''6'' then 6 else if ch = CHR ''7'' then 7 else if ch = CHR ''8'' then 8
      else 9)"

definition nat_of_str :: "string \<Rightarrow> nat" where
  "nat_of_str s = foldl (\<lambda>a ch. 10 * a + digit_val ch) 0 s"

subsection \<open>A validator\<close>

text \<open>
  A constructor that accepts, for each field, exactly the JSON type its annotation in
  models.py names (an integer also where a float is asked for, \<open>None\<close> also where the field
  is \<open>Optional\<close>) and raises \<open>ValidationError\<close> otherwise. It is stricter than pydantic, which
  also converts; the theorems hold for every validator, and this one serves in examples.
\<close>

definition as_str :: "pyval \<Rightarrow> string option" where
  "as_str v = (case v of PStr s \<Rightarrow> Some s | _ \<Rightarrow> None)"

definition as_float :: "pyval \<Rightarrow> real option" where
  "as_float v = (case v of PFloat x \<Rightarrow> Some x | PInt n \<Rightarrow> Some (real_of_int n) | _ \<Rightarrow> None)"

definition as_int :: "pyval \<Rightarrow> int option" where
  "as_int v = (case v of PInt n \<Rightarrow> Some n | _ \<Rightarrow> None)"

definition optional :: "(pyval \<Rightarrow> 'a option) \<Rightarrow> pyval \<Rightarrow> 'a option option" where
  "optional f v = (if v = PNone then Some None else map_option Some (f v))"

definition kwarg :: "(string \<times> pyval) list \<Rightarrow> string \<Rightarrow> pyval" where
  "kwarg kwargs name = (case map_of kwargs name of Some v \<Rightarrow> v | None \<Rightarrow> PNone)"

definition strict_fields :: "(string \<times> pyval) list \<Rightarrow> WeatherData option" where
  "strict_fields kw =
     do {
       a1 \<leftarrow> as_str (kwarg kw ''country'');
       a2 \<leftarrow> optional as_str (kwarg kw ''state'');
       a3 \<leftarrow> as_str (kwarg kw ''city'');
       a4 \<leftarrow> optional as_str (kwarg kw ''time_zone'');
       a5 \<leftarrow> optional as_float (kwarg kw ''temp_c'');
       a6 \<leftarrow> optional as_float (kwarg kw ''temp_f'');
       a7 \<leftarrow> optional as_float (kwarg kw ''temp_k'');
       a8 \<leftarrow> as_int (kwarg kw ''clouds'');
       a9 \<leftarrow> as_float (kwarg kw ''wind_speed_kph'');
       a10 \<leftarrow> optional as_int (kwarg kw ''wind_degree'');
       a11 \<leftarrow> optional as_str (kwarg kw ''wind_dir'');
       a12 \<leftarrow> optional as_float (kwarg kw ''pressure_mb'');
       a13 \<leftarrow> optional as_float (kwarg kw ''pressure_in'');
       a14 \<leftarrow> optional as_float (kwarg kw ''precip_mm'');
       a15 \<leftarrow> optional as_float (kwarg kw ''precip_in'');
       a16 \<leftarrow> optional as_int (kwarg kw ''humidity'');
       a17 \<leftarrow> optional as_float (kwarg kw ''feelslike_c'');
       a18 \<leftarrow> optional as_float (kwarg kw ''feelslike_f'');
       a19 \<leftarrow> optional as_float (kwarg kw ''vis_km'');
       a20 \<leftarrow> optional as_float (kwarg kw ''vis_miles'');
       a21 \<leftarrow> optional as_float (kwarg kw ''uv'');
       a22 \<leftarrow> optional as_float (kwarg kw ''gust_kph'');
       a23 \<leftarrow> optional as_float (kwarg kw ''gust_mph'');
       a24 \<leftarrow> optional as_str (kwarg kw ''last_updated'');
       Some \<lparr> country = a1, state = a2, city = a3, time_zone = a4,
              temp_c = a5, temp_f = a6, temp_k = a7, clouds = a8, wind_speed_kph = a9,
              wind_degree = a10, wind_dir = a11, pressure_mb = a12, pressure_in = a13,
              precip_mm = a14, precip_in = a15, humidity = a16, feelslike_c = a17,
              feelslike_f = a18, vis_km = a19, vis_miles = a20, uv = a21,
              gust_kph = a22, gust_mph = a23, last_updated = a24 \<rparr>
     }"

definition strict_WeatherData :: validator where
  "strict_WeatherData kw =
     (case strict_fields kw of None \<Rightarrow> Inl ValidationError | Some wd \<Rightarrow> Inr wd)"

subsection \<open>Sample payloads\<close>

text \<open>
  \<open>MOCK_WEATHER_RESPONSE\<close> of tests/test_api.py, with the city name left open so that the
  same blocks serve for several locations, and a bulk item that wraps them under a
  correlation id.
\<close>

definition mock_location_block :: "string \<Rightarrow> pyval" where
  "mock_location_block name =
     PDict [(''name'', PStr name),
            (''region'', PStr ''City of London, Greater London''),
            (''country'', PStr ''United Kingdom''),
            (''tz_id'', PStr ''Europe/London'')]"

definition mock_current_block :: pyval where
  "mock_current_block =
     PDict [(''temp_c'', PFloat 15.5), (''temp_f'', PFloat 59.9),
            (''cloud'', PInt 75), (''wind_kph'', PFloat 12.5)]"

definition MOCK_WEATHER_RESPONSE :: pyval where
  "MOCK_WEATHER_RESPONSE =
     PDict [(''location'', mock_location_block ''London''), (''current'', mock_current_block)]"

definition bulk_item :: "pyval \<Rightarrow> string \<Rightarrow> pyval" where
  "bulk_item custom_id name =
     PDict [(''query'',
             PDict [(''custom_id'', custom_id), (''q'', PStr name),
                    (''location'', mock_location_block name),
                    (''current'', mock_current_block)])]"

text \<open>
  A bulk exchange for London, Berlin and Paris (positions 0, 1, 2). The response lists
  Paris first and London last; between them stand an item with the unknown id \<open>"7"\<close> and an
  item for Berlin whose id is the number 1 instead of the string \<open>"1"\<close>.
\<close>

definition example_bulk_http :: "http_request \<Rightarrow> http_reply" where
  "example_bulk_http request =
     Response 200 []
       (Some (PDict [(''bulk'',
                PList [bulk_item (PStr ''2'') ''Paris'', bulk_item (PStr ''7'') ''Atlantis'',
                       bulk_item (PInt 1) ''Berlin'', bulk_item (PStr ''0'') ''London''])]))"

definition example_client :: WeatherClient where
  "example_client =
     \<lparr> api_key = ''test_key'', base_url = ''https://api.weatherapi.com/v1'', timeout = 10 \<rparr>"

definition example_locations :: "Location list" where
  "example_locations =
     [Location_default\<lparr>Location.city := Some ''London''\<rparr>,
      Location_default\<lparr>Location.city := Some ''Berlin''\<rparr>,
      Location_default\<lparr>Location.city := Some ''Paris''\<rparr>]"

text \<open>
  The same exchange when the provider could not answer for Berlin: the item at the known
  id \<open>"1"\<close> carries an error block and neither a location nor a current block.
\<close>

definition failed_item :: "string \<Rightarrow> string \<Rightarrow> pyval" where
  "failed_item custom_id name =
     PDict [(''query'',
             PDict [(''custom_id'', PStr custom_id), (''q'', PStr name),
                    (''error'',
                     PDict [(''code'', PInt 1006),
                            (''message'', PStr ''No matching location found.'')])])]"

definition failing_bulk_http :: "http_request \<Rightarrow> http_reply" where
  "failing_bulk_http request =
     Response 200 []
       (Some (PDict [(''bulk'',
                PList [bulk_item (PStr ''2'') ''Paris'', failed_item ''1'' ''Berlin'',
                       bulk_item (PStr ''0'') ''London''])]))"

section \<open>Properties of the unit normaliser\<close>

lemma with_common_fields_eq:
  "with_common_fields wd tc tf tk = wd\<lparr>temp_c := tc, temp_f := tf, temp_k := tk\<rparr>"
  by (simp add: with_common_fields_def)

lemma temp_k_apply_K: "temp_k (apply_units wd ''K'') = base_k wd ''K''"
  by (simp add: apply_units_def with_common_fields_eq)

lemma base_k_after_K: "base_k (apply_units wd ''K'') ''K'' = None"
  by (simp add: apply_units_def with_common_fields_eq base_k_def)

lemma base_k_None_iff:
  "base_k wd ''K'' = None \<longleftrightarrow> temp_c wd = None \<and> temp_f wd = None"
  by (auto simp add: base_k_def split: option.splits)

text \<open>
  C2. In each of the five modes the result is the raw observation with the temperature
  fields of the mode's set carrying the raw (for Kelvin: the derived) value and the other
  temperature fields set to \<open>None\<close>; no other field differs from the raw observation. A mode
  string that is none of the five returns the raw observation itself.
\<close>

theorem apply_units_modes:
  "apply_units wd ''C'' = wd\<lparr>temp_c := temp_c wd, temp_f := None, temp_k := None\<rparr>
 \<and> apply_units wd ''F'' = wd\<lparr>temp_c := None, temp_f := temp_f wd, temp_k := None\<rparr>
 \<and> apply_units wd ''K'' = wd\<lparr>temp_c := None, temp_f := None, temp_k := base_k wd ''K''\<rparr>
 \<and> apply_units wd ''BOTH'' = wd\<lparr>temp_c := temp_c wd, temp_f := temp_f wd, temp_k := None\<rparr>
 \<and> apply_units wd ''ALL'' =
       wd\<lparr>temp_c := temp_c wd, temp_f := temp_f wd, temp_k := base_k wd ''ALL''\<rparr>
 \<and> (units \<notin> {''C'', ''F'', ''K'', ''BOTH'', ''ALL''} \<longrightarrow> apply_units wd units = wd)"
  by (simp add: apply_units_def with_common_fields_eq)

theorem apply_units_modes_witness:
  "apply_units MOCK_WEATHER_DATA ''C'' = MOCK_WEATHER_DATA\<lparr>temp_f := None\<rparr>
 \<and> apply_units MOCK_WEATHER_DATA ''F'' = MOCK_WEATHER_DATA\<lparr>temp_c := None\<rparr>
 \<and> apply_units MOCK_WEATHER_DATA ''K'' =
       MOCK_WEATHER_DATA\<lparr>temp_c := None, temp_f := None, temp_k := Some 288.65\<rparr>
 \<and> apply_units MOCK_WEATHER_DATA ''BOTH'' = MOCK_WEATHER_DATA
 \<and> apply_units MOCK_WEATHER_DATA ''ALL'' = MOCK_WEATHER_DATA\<lparr>temp_k := Some 288.65\<rparr>
 \<and> apply_units MOCK_WEATHER_DATA ''kelvin'' = MOCK_WEATHER_DATA"
  using apply_units_modes [of MOCK_WEATHER_DATA "''kelvin''"]
  by (simp add: MOCK_WEATHER_DATA_def base_k_def c_to_k_def)

text \<open>
  C3. Kelvin is derived in the modes \<open>K\<close> and \<open>ALL\<close> only: from Celsius as \<open>c + 273.15\<close>
  whenever Celsius is there, from Fahrenheit as \<open>(f - 32) * 5 / 9 + 273.15\<close> when Celsius is
  missing and Fahrenheit is there, and not at all when both are missing. In the modes \<open>C\<close>,
  \<open>F\<close> and \<open>BOTH\<close> the Kelvin field is \<open>None\<close>; under any other mode string nothing is
  derived and the field is left as it was.
\<close>

theorem apply_units_kelvin:
  "base_k wd units =
     (if units = ''K'' \<or> units = ''ALL'' then
        (case (temp_c wd, temp_f wd) of
           (Some c, tf) \<Rightarrow> Some (c + 273.15)
         | (None, Some f) \<Rightarrow> Some ((f - 32) * 5 / 9 + 273.15)
         | (None, None) \<Rightarrow> None)
      else None)
 \<and> temp_k (apply_units wd units) =
     (if units = ''K'' \<or> units = ''ALL'' then base_k wd units
      else if units = ''C'' \<or> units = ''F'' \<or> units = ''BOTH'' then None
      else temp_k wd)"
  by (auto simp add: apply_units_def with_common_fields_eq base_k_def c_to_k_def f_to_k_def
        split: option.splits)

theorem apply_units_kelvin_witness:
  "temp_k (apply_units (MOCK_WEATHER_DATA\<lparr>temp_f := None\<rparr>) ''K'') = Some 288.65
 \<and> temp_k (apply_units (MOCK_WEATHER_DATA\<lparr>temp_c := None\<rparr>) ''ALL'') = Some 288.65
 \<and> temp_k (apply_units (MOCK_WEATHER_DATA\<lparr>temp_c := None, temp_f := None\<rparr>) ''ALL'') = None
 \<and> temp_k (apply_units MOCK_WEATHER_DATA ''BOTH'') = None"
  using apply_units_kelvin [of "MOCK_WEATHER_DATA\<lparr>temp_f := None\<rparr>" "''K''"]
        apply_units_kelvin [of "MOCK_WEATHER_DATA\<lparr>temp_c := None\<rparr>" "''ALL''"]
        apply_units_kelvin [of "MOCK_WEATHER_DATA\<lparr>temp_c := None, temp_f := None\<rparr>" "''ALL''"]
        apply_units_kelvin [of MOCK_WEATHER_DATA "''BOTH''"]
  by (simp add: MOCK_WEATHER_DATA_def)

text \<open>
  C8, as stated, fails in mode \<open>K\<close>: the first pass clears Celsius and Fahrenheit, so the
  second pass has nothing to derive Kelvin from and clears it too.
\<close>

theorem apply_units_idempotent_counterexample:
  "temp_k (apply_units MOCK_WEATHER_DATA ''K'') = Some 288.65
 \<and> temp_k (apply_units (apply_units MOCK_WEATHER_DATA ''K'') ''K'') = None
 \<and> apply_units (apply_units MOCK_WEATHER_DATA ''K'') ''K'' \<noteq> apply_units MOCK_WEATHER_DATA ''K''"
proof -
  have 1: "temp_k (apply_units MOCK_WEATHER_DATA ''K'') = Some 288.65"
    by (simp add: temp_k_apply_K base_k_def c_to_k_def MOCK_WEATHER_DATA_def)
  have 2: "temp_k (apply_units (apply_units MOCK_WEATHER_DATA ''K'') ''K'') = None"
    by (simp only: temp_k_apply_K base_k_after_K)
  from 1 2 have "temp_k (apply_units (apply_units MOCK_WEATHER_DATA ''K'') ''K'')
      \<noteq> temp_k (apply_units MOCK_WEATHER_DATA ''K'')"
    by simp
  then have "apply_units (apply_units MOCK_WEATHER_DATA ''K'') ''K''
      \<noteq> apply_units MOCK_WEATHER_DATA ''K''"
    by auto
  with 1 2 show ?thesis by simp
qed

text \<open>
  C8, amended. Applying the normaliser a second time with the same mode changes nothing
  exactly when the mode is not \<open>K\<close>, or the raw observation has neither Celsius nor
  Fahrenheit.
\<close>

theorem apply_units_idempotent:
  "apply_units (apply_units wd units) units = apply_units wd units
     \<longleftrightarrow> (units = ''K'' \<longrightarrow> temp_c wd = None \<and> temp_f wd = None)"
proof (cases "units = ''K''")
  case True
  have "apply_units (apply_units wd ''K'') ''K'' = apply_units wd ''K''
        \<longleftrightarrow> base_k wd ''K'' = None"
  proof
    assume "apply_units (apply_units wd ''K'') ''K'' = apply_units wd ''K''"
    then have "temp_k (apply_units (apply_units wd ''K'') ''K'') = temp_k (apply_units wd ''K'')"
      by simp
    then show "base_k wd ''K'' = None"
      by (simp only: temp_k_apply_K base_k_after_K)
  next
    assume "base_k wd ''K'' = None"
    then show "apply_units (apply_units wd ''K'') ''K'' = apply_units wd ''K''"
      by (simp add: apply_units_def with_common_fields_eq base_k_def)
  qed
  with True show ?thesis by (simp add: base_k_None_iff)
next
  case False
  then show ?thesis
    by (auto simp add: apply_units_def with_common_fields_eq base_k_def split: option.splits)
qed

theorem apply_units_idempotent_witness:
  "apply_units (apply_units MOCK_WEATHER_DATA ''C'') ''C'' = apply_units MOCK_WEATHER_DATA ''C''
 \<and> apply_units (apply_units MOCK_WEATHER_DATA ''ALL'') ''ALL'' = apply_units MOCK_WEATHER_DATA ''ALL''
 \<and> apply_units (apply_units (MOCK_WEATHER_DATA\<lparr>temp_c := None, temp_f := None\<rparr>) ''K'') ''K''
     = apply_units (MOCK_WEATHER_DATA\<lparr>temp_c := None, temp_f := None\<rparr>) ''K''"
  using apply_units_idempotent [of MOCK_WEATHER_DATA "''C''"]
        apply_units_idempotent [of MOCK_WEATHER_DATA "''ALL''"]
        apply_units_idempotent [of "MOCK_WEATHER_DATA\<lparr>temp_c := None, temp_f := None\<rparr>" "''K''"]
  by simp

section \<open>Properties of Location.to_query\<close>

lemma step_single:
  "(case truthy_str s of Some z \<Rightarrow> Inr z | None \<Rightarrow> R) = (if present s then Inr (the s) else R)"
  by (cases s) (simp_all add: truthy_str_def present_def)

lemma step_pair:
  "(case (truthy_str a, truthy_str b) of (Some x, Some y) \<Rightarrow> F x y | _ \<Rightarrow> R)
     = (if present a \<and> present b then F (the a) (the b) else R)"
  by (cases a; cases b) (simp_all add: truthy_str_def present_def)

lemma step_float:
  "(case (truthy_float la, truthy_float lo) of (Some x, Some y) \<Rightarrow> F x y | _ \<Rightarrow> R)
     = (if la \<noteq> None \<and> la \<noteq> Some 0 \<and> lo \<noteq> None \<and> lo \<noteq> Some 0
        then F (the la) (the lo) else R)"
  by (cases la; cases lo) (simp_all add: truthy_float_def)

text \<open>The chain of \<open>if\<close> statements of the source, with the truth tests spelled out.\<close>

lemma to_query_if:
  "to_query fmt l =
    (if latitude l \<noteq> None \<and> latitude l \<noteq> Some 0 \<and> longitude l \<noteq> None \<and> longitude l \<noteq> Some 0
       then Inr (fmt (the (latitude l)) @ '','' @ fmt (the (longitude l)))
     else if present (zip_code l) then Inr (the (zip_code l))
     else if present (ip_address l) then Inr (the (ip_address l))
     else if present (Location.city l) \<and> present (Location.country l)
       then Inr (the (Location.city l) @ '','' @ the (Location.country l))
     else if present (Location.city l) \<and> present (Location.state l)
       then Inr (the (Location.city l) @ '','' @ the (Location.state l))
     else if present (Location.city l) then Inr (the (Location.city l))
     else if present (Location.state l) then Inr (the (Location.state l))
     else if present (Location.country l) then Inr (the (Location.country l))
     else Inl (ValueError ''Location must have at least one valid attribute.''))"
  unfolding to_query_def by (simp only: step_single step_pair step_float)

lemma first_match_if:
  "first_match ((if P then Some q else None) # rules) = (if P then Inr q else first_match rules)"
  by simp

lemma present_the: "(if present s then s else None) = (if present s then Some (the s) else None)"
  by (cases s) (simp_all add: present_def)

lemma to_query_spec_if:
  "to_query_spec fmt l =
    (if latitude l \<noteq> None \<and> longitude l \<noteq> None
       then Inr (fmt (the (latitude l)) @ '','' @ fmt (the (longitude l)))
     else if present (zip_code l) then Inr (the (zip_code l))
     else if present (ip_address l) then Inr (the (ip_address l))
     else if present (Location.city l) \<and> present (Location.country l)
       then Inr (the (Location.city l) @ '','' @ the (Location.country l))
     else if present (Location.city l) \<and> present (Location.state l)
       then Inr (the (Location.city l) @ '','' @ the (Location.state l))
     else if present (Location.city l) then Inr (the (Location.city l))
     else if present (Location.state l) then Inr (the (Location.state l))
     else if present (Location.country l) then Inr (the (Location.country l))
     else Inl (ValueError ''Location must have at least one valid attribute.''))"
  unfolding to_query_spec_def precedence_rules_def
  by (simp only: present_the first_match_if first_match.simps)

text \<open>
  C1, as stated, fails where a field is given but false in Python's truth test. With
  latitude 0.0 and longitude 5.0 both given and nothing else, rule 1 would yield the
  coordinate pair, and the code raises. With city \<open>""\<close> and country \<open>"France"\<close>, rule 4 would
  yield \<open>",France"\<close>, and the code returns \<open>"France"\<close>.
\<close>

theorem to_query_precedence_counterexample:
  "to_query (\<lambda>x. ''#'') (Location_default\<lparr>latitude := Some 0, longitude := Some 5\<rparr>)
     = Inl (ValueError ''Location must have at least one valid attribute.'')
 \<and> to_query (\<lambda>x. ''#'')
       (Location_default\<lparr>Location.city := Some '''', Location.country := Some ''France''\<rparr>)
     = Inr ''France''"
  by (simp add: to_query_if Location_default_def present_def)

text \<open>
  C1, amended. For every location, except those that have both latitude and longitude
  given with one of them zero, \<open>to_query\<close> is the first-match evaluation of the eight
  rules, where latitude and longitude are present when given and a text field is present
  when given and not empty; when no rule applies it fails with \<open>ValueError\<close>.
\<close>

theorem to_query_precedence:
  assumes "\<not> (latitude l \<noteq> None \<and> longitude l \<noteq> None
              \<and> (latitude l = Some 0 \<or> longitude l = Some 0))"
  shows "to_query fmt l = to_query_spec fmt l"
  unfolding to_query_if to_query_spec_if using assms by auto

theorem to_query_precedence_witness:
  "to_query (\<lambda>x. if x = 51.5074 then ''51.5074'' else ''-0.1278'')
     (Location_default\<lparr>Location.city := Some ''X'', latitude := Some 51.5074,
        longitude := Some (- 0.1278)\<rparr>) = Inr ''51.5074,-0.1278''
 \<and> to_query (\<lambda>x. ''#'')
     (Location_default\<lparr>Location.city := Some ''London'', Location.country := Some ''UK'',
        Location.state := Some ''England''\<rparr>) = Inr ''London,UK''
 \<and> to_query (\<lambda>x. ''#'') Location_default
     = Inl (ValueError ''Location must have at least one valid attribute.'')
 \<and> to_query (\<lambda>x. ''#'')
     (Location_default\<lparr>Location.city := Some ''Quito'', latitude := Some 0\<rparr>) = Inr ''Quito''"
  using to_query_precedence
          [of "Location_default\<lparr>Location.city := Some ''Quito'', latitude := Some 0\<rparr>"
              "\<lambda>x. ''#''"]
        to_query_precedence
          [of "Location_default\<lparr>Location.city := Some ''X'', latitude := Some 51.5074,
                 longitude := Some (- 0.1278)\<rparr>"
              "\<lambda>x. if x = 51.5074 then ''51.5074'' else ''-0.1278''"]
        to_query_precedence
          [of "Location_default\<lparr>Location.city := Some ''London'',
                 Location.country := Some ''UK'', Location.state := Some ''England''\<rparr>"
              "\<lambda>x. ''#''"]
        to_query_precedence [of Location_default "\<lambda>x. ''#''"]
  by (simp add: Location_default_def to_query_spec_if present_def)

text \<open>
  C10, as stated, fails in its example: with latitude 0.0, longitude 5.0, city \<open>"Paris"\<close>
  and zip code \<open>"75001"\<close> the query is the zip code, not the city.
\<close>

theorem to_query_truthiness_counterexample:
  "to_query (\<lambda>x. ''#'')
     (Location_default\<lparr>Location.city := Some ''Paris'', zip_code := Some ''75001'',
        latitude := Some 0, longitude := Some 5\<rparr>) = Inr ''75001''"
  by (simp add: to_query_if Location_default_def present_def)

text \<open>
  C10, amended. A latitude or longitude equal to zero makes \<open>to_query\<close> answer as if both
  were missing, and a text field equal to the empty string as if that field were missing:
  the query is the one the later rules give. With latitude zero it is the city when the
  city is not empty and zip code, IP address, country and state are each missing or empty.
\<close>

theorem to_query_truthiness:
  "(latitude l = Some 0 \<or> longitude l = Some 0 \<longrightarrow>
      to_query fmt l = to_query fmt (l\<lparr>latitude := None, longitude := None\<rparr>))
 \<and> (zip_code l = Some [] \<longrightarrow> to_query fmt l = to_query fmt (l\<lparr>zip_code := None\<rparr>))
 \<and> (ip_address l = Some [] \<longrightarrow> to_query fmt l = to_query fmt (l\<lparr>ip_address := None\<rparr>))
 \<and> (Location.city l = Some [] \<longrightarrow>
      to_query fmt l = to_query fmt (l\<lparr>Location.city := None\<rparr>))
 \<and> (Location.country l = Some [] \<longrightarrow>
      to_query fmt l = to_query fmt (l\<lparr>Location.country := None\<rparr>))
 \<and> (Location.state l = Some [] \<longrightarrow>
      to_query fmt l = to_query fmt (l\<lparr>Location.state := None\<rparr>))
 \<and> (latitude l = Some 0 \<and> Location.city l = Some c \<and> c \<noteq> [] \<and> \<not> present (zip_code l)
      \<and> \<not> present (ip_address l) \<and> \<not> present (Location.country l)
      \<and> \<not> present (Location.state l) \<longrightarrow>
      to_query fmt l = Inr c)"
proof -
  have p: "\<And>s. s = Some [] \<Longrightarrow> \<not> present s" "\<not> present None"
    by (simp_all add: present_def)
  have 1: "latitude l = Some 0 \<or> longitude l = Some 0 \<longrightarrow>
      to_query fmt l = to_query fmt (l\<lparr>latitude := None, longitude := None\<rparr>)"
    by (auto simp add: to_query_if)
  have 2: "zip_code l = Some [] \<longrightarrow> to_query fmt l = to_query fmt (l\<lparr>zip_code := None\<rparr>)"
    by (simp add: to_query_if p)
  have 3: "ip_address l = Some [] \<longrightarrow> to_query fmt l = to_query fmt (l\<lparr>ip_address := None\<rparr>)"
    by (simp add: to_query_if p)
  have 4: "Location.city l = Some [] \<longrightarrow>
      to_query fmt l = to_query fmt (l\<lparr>Location.city := None\<rparr>)"
    by (simp add: to_query_if p)
  have 5: "Location.country l = Some [] \<longrightarrow>
      to_query fmt l = to_query fmt (l\<lparr>Location.country := None\<rparr>)"
    by (simp add: to_query_if p)
  have 6: "Location.state l = Some [] \<longrightarrow>
      to_query fmt l = to_query fmt (l\<lparr>Location.state := None\<rparr>)"
    by (simp add: to_query_if p)
  have 7: "latitude l = Some 0 \<and> Location.city l = Some c \<and> c \<noteq> [] \<and> \<not> present (zip_code l)
      \<and> \<not> present (ip_address l) \<and> \<not> present (Location.country l)
      \<and> \<not> present (Location.state l) \<longrightarrow> to_query fmt l = Inr c"
    by (simp add: to_query_if) (simp add: present_def)
  from 1 2 3 4 5 6 7 show ?thesis by blast
qed

theorem to_query_truthiness_witness:
  "to_query (\<lambda>x. ''#'')
     (Location_default\<lparr>Location.city := Some ''Paris'', latitude := Some 0,
        longitude := Some 5\<rparr>) = Inr ''Paris''
 \<and> to_query (\<lambda>x. ''#'')
     (Location_default\<lparr>Location.city := Some '''', Location.state := Some ''Texas''\<rparr>)
     = Inr ''Texas''"
proof -
  let ?a = "Location_default\<lparr>Location.city := Some ''Paris'', latitude := Some 0,
              longitude := Some 5\<rparr>"
  let ?b = "Location_default\<lparr>Location.city := Some '''', Location.state := Some ''Texas''\<rparr>"
  have "latitude ?a = Some 0 \<and> Location.city ?a = Some ''Paris'' \<and> ''Paris'' \<noteq> []
      \<and> \<not> present (zip_code ?a) \<and> \<not> present (ip_address ?a)
      \<and> \<not> present (Location.country ?a) \<and> \<not> present (Location.state ?a)
      \<longrightarrow> to_query (\<lambda>x. ''#'') ?a = Inr ''Paris''"
    using to_query_truthiness [of ?a "\<lambda>x. ''#''" "''Paris''"] by blast
  then have "to_query (\<lambda>x. ''#'') ?a = Inr ''Paris''"
    by (simp add: Location_default_def present_def)
  moreover have "Location.city ?b = Some [] \<longrightarrow>
      to_query (\<lambda>x. ''#'') ?b = to_query (\<lambda>x. ''#'') (?b\<lparr>Location.city := None\<rparr>)"
    using to_query_truthiness [of ?b "\<lambda>x. ''#''" "''''"] by blast
  then have "to_query (\<lambda>x. ''#'') ?b = to_query (\<lambda>x. ''#'') (?b\<lparr>Location.city := None\<rparr>)"
    by (simp add: Location_default_def)
  moreover have "to_query (\<lambda>x. ''#'') (?b\<lparr>Location.city := None\<rparr>) = Inr ''Texas''"
    by (simp add: to_query_if Location_default_def present_def)
  ultimately show ?thesis by simp
qed

section \<open>Properties of MemoryCache\<close>

text \<open>
  C4, as stated, fails at the instant of expiry: an entry set at time 1000 with a TTL of
  60 expires at 1060, and a read at 1060 still returns the value.
\<close>

theorem MemoryCache_expiry_counterexample:
  "fst (MemoryCache_get 1060 (MemoryCache_set 1000 MemoryCache_init ''k'' ''v'' 60) ''k'')
     = Some ''v''"
  by (simp add: MemoryCache_set_def MemoryCache_get_def)

text \<open>
  C4, amended. After \<open>set(k, v, ttl)\<close> at time \<open>now\<close> the entry of \<open>k\<close> is \<open>v\<close> with
  \<open>expires_at = now + ttl\<close>, whatever was there before. A later \<open>get(k)\<close> returns \<open>v\<close> and
  leaves the cache as it is while the time of the read is at most \<open>expires_at\<close>; once the
  time of the read is greater than \<open>expires_at\<close> it returns nothing and removes the entry.
\<close>

theorem MemoryCache_set_get:
  "MemoryCache_set now c k v ttl k
     = Some \<lparr> entry_value = v, expires_at = now + real_of_int ttl \<rparr>
 \<and> MemoryCache_get later (MemoryCache_set now c k v ttl) k =
     (if later \<le> now + real_of_int ttl then (Some v, MemoryCache_set now c k v ttl)
      else (None, (MemoryCache_set now c k v ttl)(k := None)))"
  by (simp add: MemoryCache_set_def MemoryCache_get_def)

theorem MemoryCache_set_get_witness:
  "fst (MemoryCache_get 1000 (MemoryCache_set 1000 MemoryCache_init ''k'' ''v'' 60) ''k'')
     = Some ''v''
 \<and> fst (MemoryCache_get 1061 (MemoryCache_set 1000 MemoryCache_init ''k'' ''v'' 60) ''k'')
     = None
 \<and> snd (MemoryCache_get 1061 (MemoryCache_set 1000 MemoryCache_init ''k'' ''v'' 60) ''k'') ''k''
     = None"
  using MemoryCache_set_get [of 1000 MemoryCache_init "''k''" "''v''" 60 1000]
        MemoryCache_set_get [of 1000 MemoryCache_init "''k''" "''v''" 60 1061]
  by simp

section \<open>Properties of WeatherService\<close>

lemma process_results_acc:
  "process_results units raw processed = processed @ [apply_units wd units. Some wd \<leftarrow> raw]"
  by (induction units raw processed rule: process_results.induct) simp_all

lemma length_present: "length [f wd. Some wd \<leftarrow> raw] \<le> length raw"
  by (induction raw) (auto split: option.splits)

text \<open>
  C6. On an empty list the bulk method returns the empty list and leaves the service, its
  client and its cache as they are. On any other list it calls the client's bulk method
  once, leaves the cache as it is, and returns the normalised non-missing elements of the
  client's answer in the client's order (an exception of the client is passed on); the
  result is at most as long as the client's answer.
\<close>

theorem get_current_weather_bulk_service:
  "get_current_weather_bulk cl self [] units_arg = (Inr [], self)
 \<and> (locations \<noteq> [] \<longrightarrow>
      cache (snd (get_current_weather_bulk cl self locations units_arg)) = cache self
    \<and> weather_client (snd (get_current_weather_bulk cl self locations units_arg))
        = weather_client self @ [Call_get_current_weather_bulk locations]
    \<and> fst (get_current_weather_bulk cl self locations units_arg) =
        (case client_get_current_weather_bulk cl (weather_client self) locations of
           Inl e \<Rightarrow> Inl e
         | Inr raw \<Rightarrow> Inr [apply_units wd (effective_units self units_arg). Some wd \<leftarrow> raw]))
 \<and> length [apply_units wd (effective_units self units_arg). Some wd \<leftarrow> raw] \<le> length raw"
  by (simp add: get_current_weather_bulk_def Let_def process_results_acc length_present
        split: sum.splits)

lemma read_cache_hit:
  "cache self = Some c \<Longrightarrow> fst (MemoryCache_get t c key) = Some hit \<Longrightarrow>
     read_cache t self key = (Some hit, self)"
  by (auto simp add: read_cache_def MemoryCache_get_def split: option.splits if_splits)

lemma read_cache_miss:
  "cache self = Some c \<Longrightarrow> fst (MemoryCache_get t c key) = None \<Longrightarrow>
     read_cache t self key = (None, self\<lparr>cache := Some (snd (MemoryCache_get t c key))\<rparr>)"
  by (simp add: read_cache_def)

lemma get_after_set:
  "t' \<le> t + real_of_int ttl \<Longrightarrow>
     MemoryCache_get t' (MemoryCache_set t c key v ttl) key = (Some v, MemoryCache_set t c key v ttl)"
  by (simp add: MemoryCache_get_def MemoryCache_set_def)

lemma effective_units_update [simp]:
  "effective_units (self\<lparr>cache := x\<rparr>) u = effective_units self u"
  "effective_units (self\<lparr>weather_client := y\<rparr>) u = effective_units self u"
  by (simp_all add: effective_units_def split: option.splits)

lemma get_current_weather_hit:
  assumes "cache self = Some c" and "to_query fmt location = Inr query"
    and "fst (MemoryCache_get t_get c (cache_key query (effective_units self units_arg))) = Some hit"
  shows "get_current_weather fmt cl t_get t_set self location units_arg = (Inr hit, self)"
  using assms by (simp add: get_current_weather_def Let_def read_cache_hit)

lemma get_current_weather_miss:
  assumes "cache self = Some c" and "to_query fmt location = Inr query"
    and "fst (MemoryCache_get t_get c (cache_key query (effective_units self units_arg))) = None"
    and "client_get_current_weather cl (weather_client self) query = Inr data"
  shows "get_current_weather fmt cl t_get t_set self location units_arg =
     (Inr (apply_units data (effective_units self units_arg)),
      self\<lparr>weather_client := weather_client self @ [Call_get_current_weather query],
           cache := Some (MemoryCache_set t_set
                      (snd (MemoryCache_get t_get c (cache_key query (effective_units self units_arg))))
                      (cache_key query (effective_units self units_arg))
                      (apply_units data (effective_units self units_arg)) (cache_ttl self))\<rparr>)"
  using assms
  by (simp add: get_current_weather_def Let_def read_cache_miss call_client_def write_cache_def)

text \<open>
  C5. With a cache, and a location that resolves to \<open>query\<close>, the key is
  \<open>query|units=MODE\<close> with \<open>MODE\<close> the given units (the default when none or empty),
  upper-cased. A hit returns the cached value and changes nothing: the client is not called.
  A miss with an answering client calls the client once, returns the normalised answer and
  stores it under the key with the service's TTL; a further call for the same location and
  units that reads the clock no later than the expiry returns the same value and changes
  nothing, whatever the client would answer.
\<close>

theorem get_current_weather_cached:
  assumes "cache self = Some c" and "to_query fmt location = Inr query"
  shows
   "cache_key query (effective_units self units_arg) =
      query @ ''|units='' @
        upper (case units_arg of
                 None \<Rightarrow> default_units self
               | Some u \<Rightarrow> if u = [] then default_units self else u)
  \<and> (fst (MemoryCache_get t_get c (cache_key query (effective_units self units_arg))) = Some hit \<longrightarrow>
       get_current_weather fmt cl t_get t_set self location units_arg = (Inr hit, self))
  \<and> (fst (MemoryCache_get t_get c (cache_key query (effective_units self units_arg))) = None
       \<and> client_get_current_weather cl (weather_client self) query = Inr data \<longrightarrow>
       get_current_weather fmt cl t_get t_set self location units_arg =
         (Inr (apply_units data (effective_units self units_arg)),
          self\<lparr>weather_client := weather_client self @ [Call_get_current_weather query],
               cache := Some (MemoryCache_set t_set
                  (snd (MemoryCache_get t_get c (cache_key query (effective_units self units_arg))))
                  (cache_key query (effective_units self units_arg))
                  (apply_units data (effective_units self units_arg)) (cache_ttl self))\<rparr>)
     \<and> (t_get' \<le> t_set + real_of_int (cache_ttl self) \<longrightarrow>
          get_current_weather fmt cl' t_get' t_set'
            (snd (get_current_weather fmt cl t_get t_set self location units_arg)) location units_arg
          = (Inr (apply_units data (effective_units self units_arg)),
             snd (get_current_weather fmt cl t_get t_set self location units_arg))))"
proof (intro conjI impI)
  show "cache_key query (effective_units self units_arg) =
      query @ ''|units='' @
        upper (case units_arg of
                 None \<Rightarrow> default_units self
               | Some u \<Rightarrow> if u = [] then default_units self else u)"
    by (simp add: cache_key_def effective_units_def truthy_str_def split: option.splits)
next
  assume "fst (MemoryCache_get t_get c (cache_key query (effective_units self units_arg))) = Some hit"
  with assms show "get_current_weather fmt cl t_get t_set self location units_arg = (Inr hit, self)"
    by (rule get_current_weather_hit)
next
  assume m: "fst (MemoryCache_get t_get c (cache_key query (effective_units self units_arg))) = None
       \<and> client_get_current_weather cl (weather_client self) query = Inr data"
  let ?u = "effective_units self units_arg"
  let ?key = "cache_key query ?u"
  let ?c1 = "MemoryCache_set t_set (snd (MemoryCache_get t_get c ?key)) ?key
               (apply_units data ?u) (cache_ttl self)"
  let ?self' = "self\<lparr>weather_client := weather_client self @ [Call_get_current_weather query],
                     cache := Some ?c1\<rparr>"
  from assms m show first:
    "get_current_weather fmt cl t_get t_set self location units_arg = (Inr (apply_units data ?u), ?self')"
    by (simp add: get_current_weather_miss)
  assume t: "t_get' \<le> t_set + real_of_int (cache_ttl self)"
  have "fst (MemoryCache_get t_get' ?c1 (cache_key query (effective_units ?self' units_arg)))
          = Some (apply_units data ?u)"
    using t by (simp add: get_after_set)
  then have "get_current_weather fmt cl' t_get' t_set' ?self' location units_arg
          = (Inr (apply_units data ?u), ?self')"
    using assms(2) by (intro get_current_weather_hit [where c = ?c1]) simp_all
  with first show "get_current_weather fmt cl' t_get' t_set'
            (snd (get_current_weather fmt cl t_get t_set self location units_arg)) location units_arg
          = (Inr (apply_units data ?u),
             snd (get_current_weather fmt cl t_get t_set self location units_arg))"
    by simp
qed

theorem get_current_weather_cached_witness:
  "fst (get_current_weather (\<lambda>x. ''#'') mock_client 1000 1001
          (WeatherService_init (Some MemoryCache_init) 900 ''c'')
          (Location_default\<lparr>Location.city := Some ''London''\<rparr>) None)
     = Inr (apply_units MOCK_WEATHER_DATA ''C'')
 \<and> weather_client (snd (get_current_weather (\<lambda>x. ''#'') mock_client 1000 1001
          (WeatherService_init (Some MemoryCache_init) 900 ''c'')
          (Location_default\<lparr>Location.city := Some ''London''\<rparr>) None))
     = [Call_get_current_weather ''London'']
 \<and> get_current_weather (\<lambda>x. ''#'') mock_client 1901 1902
       (snd (get_current_weather (\<lambda>x. ''#'') mock_client 1000 1001
          (WeatherService_init (Some MemoryCache_init) 900 ''c'')
          (Location_default\<lparr>Location.city := Some ''London''\<rparr>) None))
       (Location_default\<lparr>Location.city := Some ''London''\<rparr>) None
     = (Inr (apply_units MOCK_WEATHER_DATA ''C''),
        snd (get_current_weather (\<lambda>x. ''#'') mock_client 1000 1001
          (WeatherService_init (Some MemoryCache_init) 900 ''c'')
          (Location_default\<lparr>Location.city := Some ''London''\<rparr>) None))"
proof -
  let ?s = "WeatherService_init (Some MemoryCache_init) 900 ''c''"
  let ?l = "Location_default\<lparr>Location.city := Some ''London''\<rparr>"
  have c: "cache ?s = Some MemoryCache_init"
    by (simp add: WeatherService_init_def)
  have q: "to_query (\<lambda>x. ''#'') ?l = Inr ''London''"
    by (simp add: to_query_if Location_default_def present_def)
  have u: "effective_units ?s None = ''C''"
    by (simp add: effective_units_def WeatherService_init_def truthy_str_def upper_def
          upper_char_def)
  have m: "fst (MemoryCache_get 1000 MemoryCache_init (cache_key ''London'' ''C'')) = None"
    by (simp add: MemoryCache_get_def MemoryCache_init_def)
  have a: "client_get_current_weather mock_client (weather_client ?s) ''London''
      = Inr MOCK_WEATHER_DATA"
    by (simp add: mock_client_def)
  have t: "(1901::real) \<le> 1001 + real_of_int (cache_ttl ?s)"
    by (simp add: WeatherService_init_def)
  have h: "fst (MemoryCache_get 1000 MemoryCache_init
                  (cache_key ''London'' (effective_units ?s None))) = None
      \<and> client_get_current_weather mock_client (weather_client ?s) ''London''
          = Inr MOCK_WEATHER_DATA"
    using m a by (simp only: u)
  note T = get_current_weather_cached
      [OF c q, where t_get = 1000 and units_arg = None and cl = mock_client
         and data = MOCK_WEATHER_DATA and t_set = 1001 and t_get' = 1901
         and cl' = mock_client and t_set' = 1902 and hit = MOCK_WEATHER_DATA]
  from T h have first: "get_current_weather (\<lambda>x. ''#'') mock_client 1000 1001 ?s ?l None =
         (Inr (apply_units MOCK_WEATHER_DATA (effective_units ?s None)),
          ?s\<lparr>weather_client := weather_client ?s @ [Call_get_current_weather ''London''],
               cache := Some (MemoryCache_set 1001
                  (snd (MemoryCache_get 1000 MemoryCache_init
                          (cache_key ''London'' (effective_units ?s None))))
                  (cache_key ''London'' (effective_units ?s None))
                  (apply_units MOCK_WEATHER_DATA (effective_units ?s None)) (cache_ttl ?s))\<rparr>)"
    by blast
  from T h t have second: "get_current_weather (\<lambda>x. ''#'') mock_client 1901 1902
            (snd (get_current_weather (\<lambda>x. ''#'') mock_client 1000 1001 ?s ?l None)) ?l None
          = (Inr (apply_units MOCK_WEATHER_DATA (effective_units ?s None)),
             snd (get_current_weather (\<lambda>x. ''#'') mock_client 1000 1001 ?s ?l None))"
    by blast
  have 1: "fst (get_current_weather (\<lambda>x. ''#'') mock_client 1000 1001 ?s ?l None)
      = Inr (apply_units MOCK_WEATHER_DATA ''C'')"
    by (simp only: first u fst_conv)
  have 2: "weather_client (snd (get_current_weather (\<lambda>x. ''#'') mock_client 1000 1001 ?s ?l None))
      = [Call_get_current_weather ''London'']"
    by (simp only: first snd_conv, simp add: WeatherService_init_def)
  have 3: "get_current_weather (\<lambda>x. ''#'') mock_client 1901 1902
            (snd (get_current_weather (\<lambda>x. ''#'') mock_client 1000 1001 ?s ?l None)) ?l None
          = (Inr (apply_units MOCK_WEATHER_DATA ''C''),
             snd (get_current_weather (\<lambda>x. ''#'') mock_client 1000 1001 ?s ?l None))"
    using second by (simp only: u)
  from 1 2 3 show ?thesis by blast
qed

theorem get_current_weather_bulk_service_witness:
  "get_current_weather_bulk mock_client (WeatherService_init (Some MemoryCache_init) 900 ''c'')
     [] None
     = (Inr [], WeatherService_init (Some MemoryCache_init) 900 ''c'')
 \<and> fst (get_current_weather_bulk mock_client
          (WeatherService_init (Some MemoryCache_init) 900 ''c'')
          [Location_default\<lparr>Location.city := Some ''London''\<rparr>,
           Location_default\<lparr>Location.city := Some ''Atlantis''\<rparr>,
           Location_default\<lparr>Location.city := Some ''Paris''\<rparr>] (Some ''f''))
     = Inr [apply_units MOCK_WEATHER_DATA ''F'',
            apply_units (MOCK_WEATHER_DATA\<lparr>city := ''Paris''\<rparr>) ''F'']
 \<and> cache (snd (get_current_weather_bulk mock_client
          (WeatherService_init (Some MemoryCache_init) 900 ''c'')
          [Location_default\<lparr>Location.city := Some ''London''\<rparr>,
           Location_default\<lparr>Location.city := Some ''Atlantis''\<rparr>,
           Location_default\<lparr>Location.city := Some ''Paris''\<rparr>] (Some ''f'')))
     = Some MemoryCache_init"
proof -
  let ?s = "WeatherService_init (Some MemoryCache_init) 900 ''c''"
  let ?ls = "[Location_default\<lparr>Location.city := Some ''London''\<rparr>,
           Location_default\<lparr>Location.city := Some ''Atlantis''\<rparr>,
           Location_default\<lparr>Location.city := Some ''Paris''\<rparr>]"
  have u: "effective_units ?s (Some ''f'') = ''F''"
    by (simp add: effective_units_def truthy_str_def upper_def upper_char_def)
  have c: "cache ?s = Some MemoryCache_init"
    by (simp add: WeatherService_init_def)
  show ?thesis
    using get_current_weather_bulk_service
      [where cl = mock_client and self = ?s and locations = ?ls and units_arg = "Some ''f''"
         and raw = "[]"]
      get_current_weather_bulk_service
      [where cl = mock_client and self = ?s and locations = ?ls and units_arg = None
         and raw = "[]"] u c
    by (simp add: mock_client_def)
qed

section \<open>Properties of WeatherClient\<close>

subsection \<open>Correlation ids\<close>

lemma digit_val_digit_char: "d < 10 \<Longrightarrow> digit_val (digit_char d) = d"
  unfolding digit_val_def digit_char_def
  by (simp; presburger)

lemma nat_of_str_str_nat: "nat_of_str (str_nat n) = n"
proof (induction n rule: str_nat.induct)
  case (1 n)
  show ?case
  proof (cases "n < 10")
    case True
    then show ?thesis
      by (subst str_nat.simps) (simp add: nat_of_str_def digit_val_digit_char)
  next
    case False
    with 1 have "nat_of_str (str_nat (n div 10)) = n div 10" by simp
    with False show ?thesis
      by (subst str_nat.simps) (simp add: nat_of_str_def digit_val_digit_char)
  qed
qed

lemma str_nat_inject: "str_nat i = str_nat j \<longleftrightarrow> i = j"
  by (metis nat_of_str_str_nat)

lemma tag_locations_result:
  "tag_locations fmt locs idx bl m = Inr (bl', m') \<Longrightarrow>
     \<exists>qs. map (to_query fmt) locs = map Inr qs
        \<and> bl' = bl @ tagged idx qs
        \<and> (\<forall>i. idx \<le> i \<and> i < idx + length locs \<longrightarrow> m' (str_nat i) = Some i)
        \<and> (\<forall>s. (\<forall>i. idx \<le> i \<and> i < idx + length locs \<longrightarrow> s \<noteq> str_nat i) \<longrightarrow> m' s = m s)"
proof (induction locs arbitrary: idx bl m)
  case Nil
  then show ?case by (auto simp add: tagged_def)
next
  case (Cons loc locs)
  from Cons.prems obtain q where q: "to_query fmt loc = Inr q"
    and rec: "tag_locations fmt locs (Suc idx)
                (bl @ [PDict [(''q'', PStr q), (''custom_id'', PStr (str_nat idx))]])
                (m(str_nat idx \<mapsto> idx)) = Inr (bl', m')"
    by (auto split: sum.splits)
  from Cons.IH [OF rec] obtain qs where
    qs: "map (to_query fmt) locs = map Inr qs"
    and bl: "bl' = (bl @ [PDict [(''q'', PStr q), (''custom_id'', PStr (str_nat idx))]])
                     @ tagged (Suc idx) qs"
    and hit: "\<forall>i. Suc idx \<le> i \<and> i < Suc idx + length locs \<longrightarrow> m' (str_nat i) = Some i"
    and miss: "\<forall>s. (\<forall>i. Suc idx \<le> i \<and> i < Suc idx + length locs \<longrightarrow> s \<noteq> str_nat i)
                 \<longrightarrow> m' s = (m(str_nat idx \<mapsto> idx)) s"
    by blast
  have 1: "map (to_query fmt) (loc # locs) = map Inr (q # qs)"
    using q qs by simp
  have 2: "bl' = bl @ tagged idx (q # qs)"
    using bl by (simp add: tagged_def)
  have here: "m' (str_nat idx) = Some idx"
  proof -
    have "\<forall>i. Suc idx \<le> i \<and> i < Suc idx + length locs \<longrightarrow> str_nat idx \<noteq> str_nat i"
      by (simp add: str_nat_inject)
    with miss have "m' (str_nat idx) = (m(str_nat idx \<mapsto> idx)) (str_nat idx)" by blast
    then show ?thesis by simp
  qed
  have 3: "\<forall>i. idx \<le> i \<and> i < idx + length (loc # locs) \<longrightarrow> m' (str_nat i) = Some i"
  proof (intro allI impI)
    fix i assume i: "idx \<le> i \<and> i < idx + length (loc # locs)"
    show "m' (str_nat i) = Some i"
    proof (cases "i = idx")
      case True
      with here show ?thesis by simp
    next
      case False
      with i have "Suc idx \<le> i \<and> i < Suc idx + length locs" by simp
      with hit show ?thesis by blast
    qed
  qed
  have 4: "\<forall>s. (\<forall>i. idx \<le> i \<and> i < idx + length (loc # locs) \<longrightarrow> s \<noteq> str_nat i) \<longrightarrow> m' s = m s"
  proof (intro allI impI)
    fix s assume s: "\<forall>i. idx \<le> i \<and> i < idx + length (loc # locs) \<longrightarrow> s \<noteq> str_nat i"
    then have "s \<noteq> str_nat idx" by simp
    moreover from s have "\<forall>i. Suc idx \<le> i \<and> i < Suc idx + length locs \<longrightarrow> s \<noteq> str_nat i"
      by simp
    with miss have "m' s = (m(str_nat idx \<mapsto> idx)) s" by blast
    ultimately show "m' s = m s" by simp
  qed
  from 1 2 3 4 show ?case by blast
qed

lemma tag_locations_index:
  assumes "tag_locations fmt locs 0 [] Map.empty = Inr (bl, m)"
  shows "m s = Some idx \<longleftrightarrow> idx < length locs \<and> s = str_nat idx"
proof -
  from tag_locations_result [OF assms]
  have hit: "\<forall>i. i < length locs \<longrightarrow> m (str_nat i) = Some i"
    and miss: "\<forall>s. (\<forall>i. i < length locs \<longrightarrow> s \<noteq> str_nat i) \<longrightarrow> m s = None"
    by auto
  show ?thesis
  proof
    assume a: "m s = Some idx"
    with miss obtain i where i: "i < length locs" "s = str_nat i" by force
    with hit a have "idx = i" by simp
    with i show "idx < length locs \<and> s = str_nat idx" by simp
  next
    assume "idx < length locs \<and> s = str_nat idx"
    with hit show "m s = Some idx" by simp
  qed
qed

lemma place_items_step:
  "place_items V m (item # items) rs0 = Inr rs \<Longrightarrow>
     (lookup_custom_id m (item_custom_id item) = Inr None \<and> place_items V m items rs0 = Inr rs)
   \<or> (\<exists>k wd. lookup_custom_id m (item_custom_id item) = Inr (Some k)
          \<and> item_WeatherData V item = Inr wd \<and> k < length rs0
          \<and> place_items V m items (rs0[k := Some wd]) = Inr rs)"
  by (auto simp add: item_custom_id_def item_WeatherData_def
        split: sum.splits option.splits if_splits)

lemma lookup_custom_id_Some:
  "lookup_custom_id m cid = Inr (Some k) \<Longrightarrow> \<exists>s. cid = PStr s \<and> m s = Some k"
  by (cases cid) (auto simp add: lookup_custom_id_def)

lemma lookup_custom_id_None:
  "lookup_custom_id m (PStr s) = Inr None \<Longrightarrow> m s = None"
  by (simp add: lookup_custom_id_def)

lemma place_items_result:
  assumes index: "\<And>s idx. m s = Some idx \<longleftrightarrow> idx < n \<and> s = str_nat idx"
  shows "place_items V m items rs0 = Inr rs \<Longrightarrow> length rs0 = n \<Longrightarrow>
     length rs = n \<and>
     (\<forall>i<n. (answers_for i items = [] \<longrightarrow> rs ! i = rs0 ! i)
          \<and> (answers_for i items \<noteq> [] \<longrightarrow>
               (\<exists>wd. rs ! i = Some wd
                  \<and> item_WeatherData V (last (answers_for i items)) = Inr wd)))"
proof (induction items arbitrary: rs0)
  case Nil
  then show ?case by (simp add: answers_for_def)
next
  case (Cons item items)
  from place_items_step [OF Cons.prems(1)]
  show ?case
  proof (elim disjE conjE exE)
    assume skip: "lookup_custom_id m (item_custom_id item) = Inr None"
      and rest: "place_items V m items rs0 = Inr rs"
    have no: "\<And>i. i < n \<Longrightarrow> item_custom_id item \<noteq> PStr (str_nat i)"
    proof
      fix i assume "i < n" and "item_custom_id item = PStr (str_nat i)"
      with skip have "m (str_nat i) = None" by (simp add: lookup_custom_id_None)
      moreover from \<open>i < n\<close> index have "m (str_nat i) = Some i" by simp
      ultimately show False by simp
    qed
    then have same: "\<And>i. i < n \<Longrightarrow> answers_for i (item # items) = answers_for i items"
      by (simp add: answers_for_def)
    from Cons.IH [OF rest Cons.prems(2)] same show ?thesis by simp
  next
    fix k wd
    assume found: "lookup_custom_id m (item_custom_id item) = Inr (Some k)"
      and wd: "item_WeatherData V item = Inr wd"
      and k: "k < length rs0"
      and rest: "place_items V m items (rs0[k := Some wd]) = Inr rs"
    from lookup_custom_id_Some [OF found] index
    have cid: "item_custom_id item = PStr (str_nat k)" and kn: "k < n"
      by auto
    have len: "length (rs0[k := Some wd]) = n"
      using Cons.prems(2) by simp
    note IH = Cons.IH [OF rest len]
    have other: "\<And>i. i \<noteq> k \<Longrightarrow> answers_for i (item # items) = answers_for i items"
      using cid by (simp add: answers_for_def str_nat_inject)
    have this_one: "answers_for k (item # items) = item # answers_for k items"
      using cid by (simp add: answers_for_def)
    show ?thesis
    proof (intro conjI allI impI)
      from IH show "length rs = n" by simp
    next
      fix i assume i: "i < n" and e: "answers_for i (item # items) = []"
      with this_one have ik: "i \<noteq> k" by auto
      with e other have "answers_for i items = []" by simp
      with IH i have "rs ! i = rs0[k := Some wd] ! i" by simp
      with ik show "rs ! i = rs0 ! i" by simp
    next
      fix i assume i: "i < n" and ne: "answers_for i (item # items) \<noteq> []"
      show "\<exists>wd. rs ! i = Some wd
              \<and> item_WeatherData V (last (answers_for i (item # items))) = Inr wd"
      proof (cases "i = k")
        case False
        with other ne have "answers_for i (item # items) = answers_for i items"
          and "answers_for i items \<noteq> []" by simp_all
        with IH i show ?thesis by simp
      next
        case True
        show ?thesis
        proof (cases "answers_for k items = []")
          case True
          with IH kn have "rs ! k = rs0[k := Some wd] ! k" by simp
          with k have "rs ! k = Some wd" by simp
          with wd True \<open>i = k\<close> this_one show ?thesis by simp
        next
          case False
          with IH kn obtain wd' where "rs ! k = Some wd'"
            and "item_WeatherData V (last (answers_for k items)) = Inr wd'" by blast
          with False \<open>i = k\<close> this_one show ?thesis by simp
        qed
      qed
    qed
  qed
qed

subsection \<open>The sample exchange, evaluated\<close>

lemma strict_mock:
  "new_WeatherData strict_WeatherData (mock_location_block name) mock_current_block
   = Inr (MOCK_WEATHER_DATA\<lparr>city := name\<rparr>)"
  by (simp add: new_WeatherData_def WeatherData_kwargs_def keyword_arguments_def
      subscript_def dict_get_def or_None_def
      get_numeric_def strict_WeatherData_def strict_fields_def kwarg_def as_str_def as_float_def
      as_int_def optional_def MOCK_WEATHER_DATA_def mock_location_block_def mock_current_block_def)

lemma example_tags:
  "tag_locations (\<lambda>x. ''#'') example_locations 0 [] Map.empty
     = Inr (tagged 0 [''London'', ''Berlin'', ''Paris''],
            [''0'' \<mapsto> 0, ''1'' \<mapsto> Suc 0, ''2'' \<mapsto> Suc (Suc 0)])"
  by (simp add: example_locations_def to_query_if Location_default_def present_def
        str_nat.simps digit_char_def tagged_def enumerate_eq_zip upt_rec)

lemma example_items:
  "bulk_items_of (example_bulk_http request)
     = Inr [bulk_item (PStr ''2'') ''Paris'', bulk_item (PStr ''7'') ''Atlantis'',
            bulk_item (PInt 1) ''Berlin'', bulk_item (PStr ''0'') ''London'']"
  by (simp add: bulk_items_of_def example_bulk_http_def dict_get_def py_iter_def)

lemma example_place:
  "place_items strict_WeatherData [''0'' \<mapsto> 0, ''1'' \<mapsto> Suc 0, ''2'' \<mapsto> Suc (Suc 0)]
     [bulk_item (PStr ''2'') ''Paris'', bulk_item (PStr ''7'') ''Atlantis'',
      bulk_item (PInt 1) ''Berlin'', bulk_item (PStr ''0'') ''London'']
     [None, None, None]
   = Inr [Some (MOCK_WEATHER_DATA\<lparr>city := ''London''\<rparr>), None,
          Some (MOCK_WEATHER_DATA\<lparr>city := ''Paris''\<rparr>)]"
  by (simp add: bulk_item_def dict_get_def lookup_custom_id_def strict_mock)

lemma example_run:
  "WeatherClient_get_current_weather_bulk (\<lambda>x. ''#'') strict_WeatherData example_bulk_http
     example_client example_locations
   = (Inr [Some (MOCK_WEATHER_DATA\<lparr>city := ''London''\<rparr>), None,
           Some (MOCK_WEATHER_DATA\<lparr>city := ''Paris''\<rparr>)],
      [bulk_request example_client (tagged 0 [''London'', ''Berlin'', ''Paris''])])"
proof -
  have "example_locations \<noteq> []"
    and "replicate (length example_locations) (None :: WeatherData option) = [None, None, None]"
    by (simp_all add: example_locations_def numeral_3_eq_3)
  then show ?thesis
    by (simp only: WeatherClient_get_current_weather_bulk_def if_False example_tags
          sum.case prod.case Let_def example_items example_place)
qed

subsection \<open>The bulk method\<close>

text \<open>
  What holds whenever the bulk method returns a list. The list is as long as the input.
  For a non-empty input every location resolved and exactly one request was sent: a POST
  to \<open>current.json\<close> with \<open>q=bulk\<close> whose body lists the queries in input order, the one
  at position \<open>i\<close> tagged \<open>str(i)\<close>. For every position \<open>i\<close> the result is \<open>None\<close> when no item
  of the response carries the id \<open>str(i)\<close>, and otherwise the object built from the last
  item that carries it, wherever in the response that item stands.
\<close>

lemma bulk_reindexed_when_returned:
  assumes "WeatherClient_get_current_weather_bulk fmt validate http self locations
             = (Inr results, requests)"
  shows "WeatherClient_get_current_weather_bulk fmt validate http self [] = (Inr [], [])
   \<and> length results = length locations
   \<and> (locations \<noteq> [] \<longrightarrow>
        (\<exists>qs bulk_items.
            map (to_query fmt) locations = map Inr qs
          \<and> requests =
              [POST (base_url self @ ''/current.json'') [(''key'', api_key self), (''q'', ''bulk'')]
                 (PDict [(''locations'',
                    PList (map (\<lambda>(idx, q).
                                  PDict [(''q'', PStr q), (''custom_id'', PStr (str_nat idx))])
                             (enumerate 0 qs)))])
                 (timeout self)]
          \<and> bulk_items_of (http (bulk_request self (tagged 0 qs))) = Inr bulk_items
          \<and> (\<forall>i<length locations.
                (answers_for i bulk_items = [] \<longrightarrow> results ! i = None)
              \<and> (answers_for i bulk_items \<noteq> [] \<longrightarrow>
                   (\<exists>wd. results ! i = Some wd
                      \<and> item_WeatherData validate (last (answers_for i bulk_items)) = Inr wd)))))"
proof (intro conjI impI)
  show "WeatherClient_get_current_weather_bulk fmt validate http self [] = (Inr [], [])"
    by (simp add: WeatherClient_get_current_weather_bulk_def)
next
  show "length results = length locations"
  proof (cases "locations = []")
    case True
    with assms show ?thesis by (simp add: WeatherClient_get_current_weather_bulk_def)
  next
    case False
    with assms obtain bl m items where
      tags: "tag_locations fmt locations 0 [] Map.empty = Inr (bl, m)"
      and items: "bulk_items_of (http (bulk_request self bl)) = Inr items"
      and placed: "place_items validate m items (replicate (length locations) None) = Inr results"
      by (auto simp add: WeatherClient_get_current_weather_bulk_def Let_def
            split: sum.splits prod.splits)
    from place_items_result [of m "length locations", OF tag_locations_index [OF tags] placed]
    show ?thesis by simp
  qed
next
  assume ne: "locations \<noteq> []"
  with assms obtain bl m items where
    tags: "tag_locations fmt locations 0 [] Map.empty = Inr (bl, m)"
    and req: "requests = [bulk_request self bl]"
    and items: "bulk_items_of (http (bulk_request self bl)) = Inr items"
    and placed: "place_items validate m items (replicate (length locations) None) = Inr results"
    by (auto simp add: WeatherClient_get_current_weather_bulk_def Let_def
          split: sum.splits prod.splits)
  from tag_locations_result [OF tags] obtain qs where
    qs: "map (to_query fmt) locations = map Inr qs" and bl: "bl = tagged 0 qs"
    by auto
  from place_items_result [of m "length locations", OF tag_locations_index [OF tags] placed]
  have "\<forall>i<length locations.
          (answers_for i items = [] \<longrightarrow> results ! i = None)
        \<and> (answers_for i items \<noteq> [] \<longrightarrow>
             (\<exists>wd. results ! i = Some wd
                \<and> item_WeatherData validate (last (answers_for i items)) = Inr wd))"
    by simp
  moreover from req bl have "requests =
              [POST (base_url self @ ''/current.json'') [(''key'', api_key self), (''q'', ''bulk'')]
                 (PDict [(''locations'',
                    PList (map (\<lambda>(idx, q).
                                  PDict [(''q'', PStr q), (''custom_id'', PStr (str_nat idx))])
                             (enumerate 0 qs)))])
                 (timeout self)]"
    by (simp add: bulk_request_def tagged_def)
  moreover note qs items [unfolded bl]
  ultimately show "\<exists>qs bulk_items.
            map (to_query fmt) locations = map Inr qs
          \<and> requests =
              [POST (base_url self @ ''/current.json'') [(''key'', api_key self), (''q'', ''bulk'')]
                 (PDict [(''locations'',
                    PList (map (\<lambda>(idx, q).
                                  PDict [(''q'', PStr q), (''custom_id'', PStr (str_nat idx))])
                             (enumerate 0 qs)))])
                 (timeout self)]
          \<and> bulk_items_of (http (bulk_request self (tagged 0 qs))) = Inr bulk_items
          \<and> (\<forall>i<length locations.
                (answers_for i bulk_items = [] \<longrightarrow> results ! i = None)
              \<and> (answers_for i bulk_items \<noteq> [] \<longrightarrow>
                   (\<exists>wd. results ! i = Some wd
                      \<and> item_WeatherData validate (last (answers_for i bulk_items)) = Inr wd)))"
    by blast
qed

lemma bulk_reindexed_example:
  "WeatherClient_get_current_weather_bulk (\<lambda>x. ''#'') strict_WeatherData example_bulk_http
     example_client example_locations
   = (Inr [Some (MOCK_WEATHER_DATA\<lparr>city := ''London''\<rparr>), None,
           Some (MOCK_WEATHER_DATA\<lparr>city := ''Paris''\<rparr>)],
      [bulk_request example_client (tagged 0 [''London'', ''Berlin'', ''Paris''])])
 \<and> length [Some (MOCK_WEATHER_DATA\<lparr>city := ''London''\<rparr>), None,
           Some (MOCK_WEATHER_DATA\<lparr>city := ''Paris''\<rparr>)] = length example_locations
 \<and> WeatherClient_get_current_weather_bulk (\<lambda>x. ''#'') strict_WeatherData example_bulk_http
     example_client [] = (Inr [], [])"
  using bulk_reindexed_when_returned [OF example_run] example_run by simp

lemma new_WeatherData_no_location:
  "new_WeatherData validate (PDict []) current_block = Inl (KeyError ''country'')"
  by (simp add: new_WeatherData_def WeatherData_kwargs_def keyword_arguments_def subscript_def)

text \<open>
  An item that carries a known id and no location block ends the second loop with
  \<open>KeyError\<close>, whatever the validator and whatever has been placed before: the block
  defaults to \<open>{}\<close> and is then subscripted with \<open>"country"\<close>.
\<close>

lemma place_items_no_location:
  assumes "id_to_index custom_id = Some idx"
    and "map_of query_items ''custom_id'' = Some (PStr custom_id)"
    and "map_of query_items ''location'' = None"
  shows "place_items validate id_to_index (PDict [(''query'', PDict query_items)] # bulk_items) results
           = Inl (KeyError ''country'')"
  using assms
  by (simp add: dict_get_def lookup_custom_id_def new_WeatherData_no_location)

lemma failing_items:
  "bulk_items_of (failing_bulk_http request)
     = Inr [bulk_item (PStr ''2'') ''Paris'', failed_item ''1'' ''Berlin'',
            bulk_item (PStr ''0'') ''London'']"
  by (simp add: bulk_items_of_def failing_bulk_http_def dict_get_def py_iter_def)

lemma failing_place:
  "place_items strict_WeatherData [''0'' \<mapsto> 0, ''1'' \<mapsto> Suc 0, ''2'' \<mapsto> Suc (Suc 0)]
     [bulk_item (PStr ''2'') ''Paris'', failed_item ''1'' ''Berlin'',
      bulk_item (PStr ''0'') ''London'']
     [None, None, None]
   = Inl (KeyError ''country'')"
  by (simp add: bulk_item_def failed_item_def dict_get_def lookup_custom_id_def strict_mock
        new_WeatherData_no_location)

text \<open>
  C7. The claim asks for a list as long as the input, with \<open>None\<close> at every position
  whose sub-result is missing. The code does so when the item is absent from the response
  or carries an unknown id: in the first exchange below (Paris, an unknown id, an id of
  the wrong type, London) the result is London, \<open>None\<close>, Paris. It does not when the item
  is there under its id without a location block: in the second exchange (Paris, the
  failed item for Berlin, London) the whole call raises \<open>KeyError('country')\<close> and no list
  is returned. In both exchanges nothing is sent for the empty list.
\<close>

theorem WeatherClient_bulk_missing_block:
  "fst (WeatherClient_get_current_weather_bulk (\<lambda>x. ''#'') strict_WeatherData
          failing_bulk_http example_client example_locations)
     = Inl (KeyError ''country'')
 \<and> fst (WeatherClient_get_current_weather_bulk (\<lambda>x. ''#'') strict_WeatherData
          example_bulk_http example_client example_locations)
     = Inr [Some (MOCK_WEATHER_DATA\<lparr>city := ''London''\<rparr>), None,
            Some (MOCK_WEATHER_DATA\<lparr>city := ''Paris''\<rparr>)]
 \<and> WeatherClient_get_current_weather_bulk fmt validate http self [] = (Inr [], [])"
proof -
  have "example_locations \<noteq> []"
    and "replicate (length example_locations) (None :: WeatherData option) = [None, None, None]"
    by (simp_all add: example_locations_def numeral_3_eq_3)
  then have "fst (WeatherClient_get_current_weather_bulk (\<lambda>x. ''#'') strict_WeatherData
          failing_bulk_http example_client example_locations) = Inl (KeyError ''country'')"
    by (simp only: WeatherClient_get_current_weather_bulk_def if_False example_tags
          sum.case prod.case Let_def failing_items failing_place fst_conv)
  moreover have "WeatherClient_get_current_weather_bulk fmt validate http self []
      = (Inr [], [])"
    by (simp add: WeatherClient_get_current_weather_bulk_def)
  ultimately show ?thesis
    by (simp add: example_run)
qed

subsection \<open>Blank values in the current block\<close>

lemma dict_get_other:
  "map_of cur' = (map_of cur)(key := None) \<Longrightarrow> k \<noteq> key \<Longrightarrow>
     dict_get (PDict cur') k d = dict_get (PDict cur) k d"
  by (simp add: dict_get_def)

lemma get_numeric_blank:
  "map_of cur key = Some (PStr []) \<Longrightarrow> map_of cur' = (map_of cur)(key := None) \<Longrightarrow>
     get_numeric (PDict cur') k = get_numeric (PDict cur) k"
  by (cases "k = key") (simp_all add: get_numeric_def dict_get_def)

lemma get_numeric_keys_plain:
  "key \<in> set get_numeric_keys \<Longrightarrow>
     ''temp_c'' \<noteq> key \<and> ''temp_f'' \<noteq> key \<and> ''cloud'' \<noteq> key \<and> ''wind_kph'' \<noteq> key
   \<and> ''wind_dir'' \<noteq> key \<and> ''last_updated'' \<noteq> key"
  by (auto simp add: get_numeric_keys_def)

lemma keyword_arguments_blank:
  assumes "key \<in> set get_numeric_keys" and "map_of cur key = Some (PStr [])"
    and "map_of cur' = (map_of cur)(key := None)"
  shows "keyword_arguments location_block (PDict cur')
           = keyword_arguments location_block (PDict cur)"
  using get_numeric_keys_plain [OF assms(1)]
  by (simp add: keyword_arguments_def get_numeric_blank [OF assms(2,3)]
        dict_get_other [OF assms(3)])

lemma keyword_arguments_get_numeric:
  "key \<in> set get_numeric_keys \<Longrightarrow>
     map_of (keyword_arguments location_block current_block) key
       = Some (get_numeric current_block key)"
  by (auto simp add: get_numeric_keys_def keyword_arguments_def)

lemma keyword_arguments_defaults:
  "map_of (keyword_arguments location_block current_block) ''clouds''
     = Some (dict_get current_block ''cloud'' (PInt 0))"
  "map_of (keyword_arguments location_block current_block) ''wind_speed_kph''
     = Some (dict_get current_block ''wind_kph'' (PFloat 0))"
  by (simp_all add: keyword_arguments_def)

lemma evaluate_kwargs_lookup:
  "evaluate_kwargs xs = Inr kw \<Longrightarrow> map_of xs name = Some (Inr v) \<Longrightarrow> map_of kw name = Some v"
  by (induction xs arbitrary: kw rule: evaluate_kwargs.induct)
     (auto split: sum.splits if_splits)

lemma kwarg_lookup:
  "WeatherData_kwargs location_block current_block = Inr kwargs \<Longrightarrow>
   map_of (keyword_arguments location_block current_block) name = Some (Inr v) \<Longrightarrow>
   kwarg kwargs name = v"
  by (simp add: WeatherData_kwargs_def kwarg_def evaluate_kwargs_lookup)

lemma parse_current_payload:
  "parse_current validate query (PDict [(''location'', location_block), (''current'', current_block)])
     = (case dict_get location_block ''name'' (PStr query) of
          Inl e \<Rightarrow> Inl e
        | Inr logged \<Rightarrow> new_WeatherData validate location_block current_block)"
  by (simp add: parse_current_def subscript_def)

text \<open>
  C9, as stated, fails for the fields the source reads without \<open>get_numeric\<close>: a blank
  \<open>temp_c\<close> and a blank \<open>cloud\<close> reach the constructor as the empty string, so the call
  differs from the one made when the two keys are missing (where \<open>temp_c\<close> is \<open>None\<close> and
  \<open>clouds\<close> is 0).
\<close>

theorem blank_numeric_counterexample:
  "WeatherData_kwargs (mock_location_block ''London'')
      (PDict [(''temp_c'', PStr []), (''cloud'', PStr [])])
     \<noteq> WeatherData_kwargs (mock_location_block ''London'') (PDict [])
 \<and> (case WeatherData_kwargs (mock_location_block ''London'')
            (PDict [(''temp_c'', PStr []), (''cloud'', PStr [])]) of
       Inl e \<Rightarrow> False
     | Inr kwargs \<Rightarrow> kwarg kwargs ''temp_c'' = PStr [] \<and> kwarg kwargs ''clouds'' = PStr [])"
  by (simp add: WeatherData_kwargs_def keyword_arguments_def mock_location_block_def
        subscript_def dict_get_def or_None_def get_numeric_def kwarg_def)

text \<open>
  C9, amended. For each of the thirteen keys read through \<open>get_numeric\<close> (\<open>wind_degree\<close>,
  \<open>pressure_mb\<close>, \<open>pressure_in\<close>, \<open>precip_mm\<close>, \<open>precip_in\<close>, \<open>humidity\<close>, \<open>feelslike_c\<close>,
  \<open>feelslike_f\<close>, \<open>vis_km\<close>, \<open>vis_miles\<close>, \<open>uv\<close>, \<open>gust_kph\<close>, \<open>gust_mph\<close>), a current block
  that holds the empty string under the key is parsed exactly as the block without the key:
  the keyword arguments are the same, the field's argument is \<open>None\<close>, and
  \<open>get_current_weather\<close> returns the same result and sends the same request. The required
  fields \<open>clouds\<close> and \<open>wind_speed_kph\<close> receive 0 and 0.0 when their keys \<open>cloud\<close> and
  \<open>wind_kph\<close> are missing.
\<close>

theorem blank_numeric_is_absent:
  assumes "key \<in> set get_numeric_keys" and "map_of cur key = Some (PStr [])"
    and "map_of cur' = (map_of cur)(key := None)"
  shows "WeatherData_kwargs location_block (PDict cur)
           = WeatherData_kwargs location_block (PDict cur')
   \<and> WeatherClient_get_current_weather validate
         (\<lambda>request. Response 200 body
            (Some (PDict [(''location'', location_block), (''current'', PDict cur)]))) self query
       = WeatherClient_get_current_weather validate
         (\<lambda>request. Response 200 body
            (Some (PDict [(''location'', location_block), (''current'', PDict cur')]))) self query
   \<and> (\<forall>kwargs. WeatherData_kwargs location_block (PDict cur) = Inr kwargs \<longrightarrow>
         kwarg kwargs key = PNone
       \<and> (map_of cur ''cloud'' = None \<longrightarrow> kwarg kwargs ''clouds'' = PInt 0)
       \<and> (map_of cur ''wind_kph'' = None \<longrightarrow> kwarg kwargs ''wind_speed_kph'' = PFloat 0))"
proof (intro conjI allI impI)
  show eq: "WeatherData_kwargs location_block (PDict cur)
           = WeatherData_kwargs location_block (PDict cur')"
    using keyword_arguments_blank [OF assms] by (simp add: WeatherData_kwargs_def)
  then have "new_WeatherData validate location_block (PDict cur)
           = new_WeatherData validate location_block (PDict cur')"
    by (simp add: new_WeatherData_def)
  then show "WeatherClient_get_current_weather validate
         (\<lambda>request. Response 200 body
            (Some (PDict [(''location'', location_block), (''current'', PDict cur)]))) self query
       = WeatherClient_get_current_weather validate
         (\<lambda>request. Response 200 body
            (Some (PDict [(''location'', location_block), (''current'', PDict cur')]))) self query"
    by (simp add: WeatherClient_get_current_weather_def parse_current_payload
          split: sum.splits)
next
  fix kwargs assume kw: "WeatherData_kwargs location_block (PDict cur) = Inr kwargs"
  have "get_numeric (PDict cur) key = Inr PNone"
    using assms(2) by (simp add: get_numeric_def dict_get_def)
  with keyword_arguments_get_numeric [OF assms(1), of location_block "PDict cur"]
  show "kwarg kwargs key = PNone"
    by (intro kwarg_lookup [OF kw]) simp
next
  fix kwargs assume kw: "WeatherData_kwargs location_block (PDict cur) = Inr kwargs"
    and "map_of cur ''cloud'' = None"
  then show "kwarg kwargs ''clouds'' = PInt 0"
    by (intro kwarg_lookup [OF kw]) (simp add: keyword_arguments_defaults dict_get_def)
next
  fix kwargs assume kw: "WeatherData_kwargs location_block (PDict cur) = Inr kwargs"
    and "map_of cur ''wind_kph'' = None"
  then show "kwarg kwargs ''wind_speed_kph'' = PFloat 0"
    by (intro kwarg_lookup [OF kw]) (simp add: keyword_arguments_defaults dict_get_def)
qed

lemma mock_location_name:
  "dict_get (mock_location_block name) ''name'' d = Inr (PStr name)"
  by (simp add: mock_location_block_def dict_get_def)

theorem blank_numeric_is_absent_witness:
  "WeatherClient_get_current_weather strict_WeatherData
     (\<lambda>request. Response 200 []
        (Some (PDict [(''location'', mock_location_block ''London''),
                      (''current'',
                       PDict [(''wind_degree'', PStr []),
                              (''temp_c'', PFloat 15.5), (''temp_f'', PFloat 59.9),
                              (''cloud'', PInt 75), (''wind_kph'', PFloat 12.5)])])))
     example_client ''London''
   = (Inr (MOCK_WEATHER_DATA\<lparr>city := ''London''\<rparr>), [current_request example_client ''London''])"
proof -
  let ?cur' = "[(''temp_c'', PFloat 15.5), (''temp_f'', PFloat 59.9),
                (''cloud'', PInt 75), (''wind_kph'', PFloat 12.5)]"
  let ?cur = "(''wind_degree'', PStr []) # ?cur'"
  have k: "''wind_degree'' \<in> set get_numeric_keys"
    by (simp add: get_numeric_keys_def)
  have b: "map_of ?cur ''wind_degree'' = Some (PStr [])"
    by simp
  have r: "map_of ?cur' = (map_of ?cur)(''wind_degree'' := None)"
    by (rule ext) simp
  have e: "WeatherClient_get_current_weather strict_WeatherData
     (\<lambda>request. Response 200 []
        (Some (PDict [(''location'', mock_location_block ''London''),
                      (''current'', PDict ?cur')])))
     example_client ''London''
   = (Inr (MOCK_WEATHER_DATA\<lparr>city := ''London''\<rparr>), [current_request example_client ''London''])"
    unfolding mock_current_block_def [symmetric]
    by (simp add: WeatherClient_get_current_weather_def parse_current_payload
          mock_location_name strict_mock)
  from blank_numeric_is_absent
         [OF k b r, where location_block = "mock_location_block ''London''"
            and validate = strict_WeatherData and body = "[]" and self = example_client
            and query = "''London''"] e
  show ?thesis by simp
qed

end
